theory Spec2Isabelle
  imports Complex_Main
begin

section \<open>Exceptions\<close>

text \<open>
  Every exception the modelled code can raise is a value. \<open>ValueError\<close> carries its
  message: \<open>Msg\<close> for a message that the source or a library writes, \<open>IntMessage s\<close> for
  the interpreter's own message when \<open>int(s)\<close> rejects the text \<open>s\<close> (as an invalid literal,
  or for having more digits than it converts).
\<close>

datatype msg = Msg string | IntMessage string

datatype error =
    ValueError msg
  | TypeError
  | KeyError string
  | OverflowError
  | AttributeError
  | CircuitError
  | NoiseError
  | QiskitError
  | BackendError

definition then_do :: "error + 'a \<Rightarrow> ('a \<Rightarrow> error + 'b) \<Rightarrow> error + 'b" where
  "then_do m f = (case m of Inl e \<Rightarrow> Inl e | Inr x \<Rightarrow> f x)"

text \<open>A \<open>for\<close> loop whose body may raise: the first exception ends the loop.\<close>

fun for_each :: "'a list \<Rightarrow> ('a \<Rightarrow> 's \<Rightarrow> error + 's) \<Rightarrow> 's \<Rightarrow> error + 's" where
  "for_each [] body s = Inr s"
| "for_each (x # xs) body s =
     (case body x s of Inl e \<Rightarrow> Inl e | Inr s' \<Rightarrow> for_each xs body s')"

section \<open>The interpreter's \<open>int(text)\<close>, \<open>range\<close> and \<open>int * float\<close>\<close>

text \<open>
  \<open>int(s)\<close> in base 10. A \<open>string\<close> holds characters of the codes 0 to 255. Whitespace
  around the text is dropped: the codes 9 to 13 and 32 and, of the codes from 128 on, the
  spaces 133 and 160; the codes 28 to 31 are not dropped. One sign may lead, and the rest
  is decimal digits \<open>0\<close> to \<open>9\<close> in which single underscores may stand between two digits.
  A text with more than \<open>int_max_str_digits\<close> digits is rejected, as the interpreter does
  by default. Anything else raises \<open>ValueError\<close>; here that is \<open>None\<close>.
\<close>

definition is_space :: "char \<Rightarrow> bool" where
  "is_space c = (of_char c \<in> {9, 10, 11, 12, 13, 32, 133, 160 :: nat})"

definition is_digit :: "char \<Rightarrow> bool" where
  "is_digit c = (48 \<le> (of_char c :: nat) \<and> (of_char c :: nat) \<le> 57)"

definition digit_val :: "char \<Rightarrow> nat" where
  "digit_val c = of_char c - 48"

definition strip :: "string \<Rightarrow> string" where
  "strip s = rev (dropWhile is_space (rev (dropWhile is_space s)))"

fun py_digits :: "bool \<Rightarrow> nat \<Rightarrow> string \<Rightarrow> nat option" where
  "py_digits prev acc [] = (if prev then Some acc else None)"
| "py_digits prev acc (c # cs) =
     (if is_digit c then py_digits True (10 * acc + digit_val c) cs
      else if c = CHR ''_'' \<and> prev then py_digits False acc cs
      else None)"

definition int_max_str_digits :: nat where
  "int_max_str_digits = 4300"

definition py_int :: "string \<Rightarrow> int option" where
  "py_int s =
     (if length (filter is_digit (strip s)) > int_max_str_digits then None
      else
        (case strip s of
           [] \<Rightarrow> None
         | c # cs \<Rightarrow>
             if c = CHR ''-'' then map_option (\<lambda>v. - int v) (py_digits False 0 cs)
             else if c = CHR ''+'' then map_option int (py_digits False 0 cs)
             else map_option int (py_digits False 0 (c # cs))))"

text \<open>The texts the theorems below speak of: every character is ASCII.\<close>

definition ascii_text :: "string \<Rightarrow> bool" where
  "ascii_text s = list_all (\<lambda>c. (of_char c :: nat) < 128) s"

text \<open>\<open>int(x)\<close> for a value that is a string or \<open>None\<close>.\<close>

definition int_of :: "string option \<Rightarrow> error + int" where
  "int_of v =
     (case v of
        None \<Rightarrow> Inl TypeError
      | Some s \<Rightarrow> (case py_int s of None \<Rightarrow> Inl (ValueError (IntMessage s)) | Some i \<Rightarrow> Inr i))"

text \<open>\<open>range(n)\<close>: empty for \<open>n \<le> 0\<close>.\<close>

definition py_range :: "int \<Rightarrow> nat list" where
  "py_range n = [0..<nat n]"

text \<open>
  Angles are kept as the expression the source computes: \<open>Angle k d\<close> is the float
  \<open>k * np.pi / d\<close>. Multiplying the float \<open>np.pi\<close> by an integer, or dividing a float by
  an integer, first converts the integer to a double, which raises \<open>OverflowError\<close> when
  it rounds to \<open>2^1024\<close> or beyond. \<open>times_pi_over k d\<close> is \<open>k * np.pi / d\<close> and, with
  \<open>k = -1\<close>, \<open>-np.pi / d\<close>.
\<close>

datatype angle = Angle (numer: int) (denom: nat)

definition angle_val :: "angle \<Rightarrow> real" where
  "angle_val a = of_int (numer a) * pi / of_nat (denom a)"

definition float_max_int :: int where
  "float_max_int = 2 ^ 1024 - 2 ^ 970"

definition times_pi_over :: "int \<Rightarrow> nat \<Rightarrow> error + angle" where
  "times_pi_over k d =
     (if \<bar>k\<bar> < float_max_int \<and> int d < float_max_int then Inr (Angle k d)
      else Inl OverflowError)"

section \<open>Circuits\<close>

text \<open>
  One constructor per circuit method the source calls. \<open>Barrier\<close> is \<open>qc.barrier()\<close>
  (all qubits), \<open>SaveDensityMatrix\<close> is \<open>qc.save_density_matrix()\<close> and \<open>MeasureAll\<close> is
  \<open>qc.measure_all()\<close>. \<open>Other name qubits\<close> is any other instruction; the source adds
  none, transpiling a circuit may.
\<close>

datatype gate =
    Hgate nat
  | Pgate angle nat
  | CPgate angle nat nat
  | SWAPgate nat nat
  | Barrier
  | SaveDensityMatrix
  | MeasureAll
  | Other string "nat list"

record quantum_circuit =
  num_qubits :: nat
  data :: "gate list"

definition QuantumCircuit :: "int \<Rightarrow> error + quantum_circuit" where
  "QuantumCircuit n =
     (if n < 0 then Inl CircuitError else Inr \<lparr>num_qubits = nat n, data = []\<rparr>)"

definition emit :: "quantum_circuit \<Rightarrow> gate list \<Rightarrow> quantum_circuit" where
  "emit c gs = c\<lparr>data := data c @ gs\<rparr>"

text \<open>The library rejects a qubit index out of range and a repeated qubit argument.\<close>

definition qc_h :: "quantum_circuit \<Rightarrow> nat \<Rightarrow> error + quantum_circuit" where
  "qc_h c q = (if q < num_qubits c then Inr (emit c [Hgate q]) else Inl CircuitError)"

definition qc_p :: "quantum_circuit \<Rightarrow> angle \<Rightarrow> nat \<Rightarrow> error + quantum_circuit" where
  "qc_p c a q = (if q < num_qubits c then Inr (emit c [Pgate a q]) else Inl CircuitError)"

definition qc_cp :: "quantum_circuit \<Rightarrow> angle \<Rightarrow> nat \<Rightarrow> nat \<Rightarrow> error + quantum_circuit" where
  "qc_cp c a ctl tgt =
     (if ctl < num_qubits c \<and> tgt < num_qubits c \<and> ctl \<noteq> tgt
      then Inr (emit c [CPgate a ctl tgt]) else Inl CircuitError)"

definition qc_swap :: "quantum_circuit \<Rightarrow> nat \<Rightarrow> nat \<Rightarrow> error + quantum_circuit" where
  "qc_swap c q1 q2 =
     (if q1 < num_qubits c \<and> q2 < num_qubits c \<and> q1 \<noteq> q2
      then Inr (emit c [SWAPgate q1 q2]) else Inl CircuitError)"

definition qc_barrier :: "quantum_circuit \<Rightarrow> error + quantum_circuit" where
  "qc_barrier c = Inr (emit c [Barrier])"

text \<open>The library refuses to save the state of a circuit without qubits.\<close>

definition qc_save_density_matrix :: "quantum_circuit \<Rightarrow> error + quantum_circuit" where
  "qc_save_density_matrix c =
     (if num_qubits c = 0 then Inl (ValueError (Msg ''no qubits for snapshot''))
      else Inr (emit c [SaveDensityMatrix]))"

definition qc_measure_all :: "quantum_circuit \<Rightarrow> error + quantum_circuit" where
  "qc_measure_all c = Inr (emit c [MeasureAll])"

section \<open>The IQFT object\<close>

type_synonym counts = "(string \<times> nat) list"

datatype qstate = Statevector "complex list" | DensityMatrix "complex list list"

datatype quantum_error =
    Depolarizing real nat
  | AmplitudeDamping real
  | PhaseDamping real
  | Kraus "real list list list"

text \<open>A noise model: the errors added, each with the instruction names it is attached to
  (on all qubits), in the order added.\<close>

type_synonym noise_model = "(quantum_error \<times> string list) list"

datatype simulator = StatevectorSimulator | AerSimulator "noise_model option"

text \<open>
  The fields of \<open>IQFT\<close>, as \<open>__init__\<close> sets them. The fields \<open>n\<close> and \<open>measure\<close> of the
  source are \<open>n_qubits\<close> and \<open>measure_flag\<close> here. The dictionary \<open>noise_options\<close> is an
  association list read with \<open>map_of\<close>.
\<close>

record iqft =
  n_qubits :: int
  state :: "string option"
  qc :: "quantum_circuit option"
  noise :: bool
  noise_type :: "string option"
  noise_options :: "(string \<times> real) list option"
  resulting_state :: "qstate option"
  resulting_probabilities :: "real list option"
  resulting_counts :: "counts option"
  measure_flag :: bool
  target :: "simulator option"
  comparison :: bool
  comp_fidelity :: "(qstate \<times> qstate) option"
  comp_counts :: "(counts \<times> counts) option"

definition IQFT ::
  "int \<Rightarrow> string option \<Rightarrow> bool \<Rightarrow> string option \<Rightarrow> (string \<times> real) list option \<Rightarrow>
   bool \<Rightarrow> bool \<Rightarrow> iqft"
where
  "IQFT n st nse nse_type nse_options meas cmp =
     \<lparr>n_qubits = n, state = st, qc = None, noise = nse, noise_type = nse_type,
      noise_options = nse_options, resulting_state = None, resulting_probabilities = None,
      resulting_counts = None, measure_flag = meas, target = None, comparison = cmp,
      comp_fidelity = None, comp_counts = None\<rparr>"

section \<open>Building the IQFT circuit\<close>

text \<open>The nested function \<open>add_iqft_rotations(circuit, n)\<close>.\<close>

definition add_iqft_rotations :: "quantum_circuit \<Rightarrow> int \<Rightarrow> error + quantum_circuit" where
  "add_iqft_rotations circuit n =
     for_each (py_range n)
       (\<lambda>tgt c.
          then_do
            (for_each (rev (py_range (int tgt)))
               (\<lambda>ctl c'.
                  then_do (times_pi_over (- 1) (2 ^ (tgt - ctl))) (\<lambda>angle.
                  qc_cp c' angle ctl tgt)) c)
            (\<lambda>c'. qc_h c' tgt))
       circuit"

text \<open>
  \<open>add_iqft_circuit(self, qc)\<close>. The second loop carries \<open>curr_num\<close> beside the
  circuit; \<open>int(self.state)\<close> is evaluated in every round of it.
\<close>

definition add_iqft_circuit :: "iqft \<Rightarrow> quantum_circuit \<Rightarrow> error + quantum_circuit" where
  "add_iqft_circuit self c0 =
     then_do (for_each (py_range (n_qubits self)) (\<lambda>qubit c. qc_h c qubit) c0) (\<lambda>c1.
     then_do
       (for_each (rev (py_range (n_qubits self)))
          (\<lambda>qubit (c, curr_num).
             then_do (int_of (state self)) (\<lambda>i.
             then_do (times_pi_over i curr_num) (\<lambda>theta.
             then_do (qc_p c theta qubit) (\<lambda>c'.
             Inr (c', curr_num * 2)))))
          (c1, 1))
       (\<lambda>(c2, curr_num).
     then_do
       (for_each (py_range (n_qubits self div 2))
          (\<lambda>qubit c.
             then_do (qc_swap c qubit (nat (n_qubits self - int qubit - 1))) qc_barrier)
          c2)
       (\<lambda>c3.
     then_do (add_iqft_rotations c3 (n_qubits self)) (\<lambda>c4.
     then_do (if noise self then qc_save_density_matrix c4 else Inr c4) (\<lambda>c5.
     (if measure_flag self then qc_measure_all c5 else Inr c5))))))"

text \<open>
  \<open>build_iqft(self)\<close>. The diagram renderer \<open>circuit_drawer\<close> is outside this code and is
  a parameter: it returns the path of the image or raises. The result is the object
  afterwards and either the exception raised or the path returned; \<open>self.qc\<close> is assigned
  only once \<open>add_iqft_circuit\<close> has returned.
\<close>

definition build_iqft ::
  "(quantum_circuit \<Rightarrow> error + string) \<Rightarrow> iqft \<Rightarrow> iqft \<times> (error + string)"
where
  "build_iqft circuit_drawer self =
     (case then_do (QuantumCircuit (n_qubits self)) (add_iqft_circuit self) of
        Inl e \<Rightarrow> (self, Inl e)
      | Inr c \<Rightarrow> (self\<lparr>qc := Some c\<rparr>, circuit_drawer c))"

section \<open>Noise models\<close>

text \<open>
  Real matrices are lists of rows. \<open>np.sqrt\<close> and the float products are read over the
  reals.
\<close>

type_synonym matrix = "real list list"

definition eye2 :: matrix where
  "eye2 = [[1, 0], [0, 1]]"

definition pauli_x :: matrix where
  "pauli_x = [[0, 1], [1, 0]]"

definition pauli_z :: matrix where
  "pauli_z = [[1, 0], [0, - 1]]"

definition scale :: "real \<Rightarrow> matrix \<Rightarrow> matrix" where
  "scale a m = map (map ((*) a)) m"

definition dot :: "real list \<Rightarrow> real list \<Rightarrow> real" where
  "dot u v = sum_list (map2 (*) u v)"

definition mat_mul :: "matrix \<Rightarrow> matrix \<Rightarrow> matrix" where
  "mat_mul a b = map (\<lambda>row. map (dot row) (transpose b)) a"

definition mat_add :: "matrix \<Rightarrow> matrix \<Rightarrow> matrix" where
  "mat_add a b = map2 (map2 (+)) a b"

text \<open>
  The library accepts a set of single-qubit Kraus operators as an error only when it is
  trace preserving: the products \<open>K\<^sup>T K\<close> add up to the identity.
\<close>

definition is_cptp :: "matrix list \<Rightarrow> bool" where
  "is_cptp ks =
     (foldr mat_add (map (\<lambda>k. mat_mul (transpose k) k) ks) [[0, 0], [0, 0]] = eye2)"

definition kraus_error :: "matrix list \<Rightarrow> error + quantum_error" where
  "kraus_error ks = (if is_cptp ks then Inr (Kraus ks) else Inl NoiseError)"

text \<open>The library's parameterised channels reject a parameter outside their domain.\<close>

definition depolarizing_error :: "real \<Rightarrow> nat \<Rightarrow> error + quantum_error" where
  "depolarizing_error lam k =
     (if k < 1 \<or> lam < 0 \<or> lam > 4 ^ k / (4 ^ k - 1) then Inl NoiseError
      else Inr (Depolarizing lam k))"

definition amplitude_damping_error :: "real \<Rightarrow> error + quantum_error" where
  "amplitude_damping_error g =
     (if g < 0 \<or> g > 1 then Inl NoiseError else Inr (AmplitudeDamping g))"

definition phase_damping_error :: "real \<Rightarrow> error + quantum_error" where
  "phase_damping_error g =
     (if g < 0 \<or> g > 1 then Inl NoiseError else Inr (PhaseDamping g))"

text \<open>\<open>self.noise_options[key]\<close>: \<open>TypeError\<close> on \<open>None\<close>, \<open>KeyError\<close> on a missing key.\<close>

definition option_of :: "iqft \<Rightarrow> string \<Rightarrow> error + real" where
  "option_of self key =
     (case noise_options self of
        None \<Rightarrow> Inl TypeError
      | Some d \<Rightarrow> (case map_of d key of None \<Rightarrow> Inl (KeyError key) | Some v \<Rightarrow> Inr v))"

text \<open>
  An error is ideal when its channel is the identity: a depolarizing or damping channel
  with the parameter 0, and Kraus operators that are all multiples of the identity matrix.
  The library adds no ideal error to a noise model: it returns with the model as it was.
  The library compares floats within a tolerance; here the parameters are reals and the
  comparison is exact.
\<close>

fun scalar_matrix :: "matrix \<Rightarrow> bool" where
  "scalar_matrix [[a, b], [c, d]] = (b = 0 \<and> c = 0 \<and> a = d)"
| "scalar_matrix m = False"

fun ideal :: "quantum_error \<Rightarrow> bool" where
  "ideal (Depolarizing lam k) = (lam = 0)"
| "ideal (AmplitudeDamping g) = (g = 0)"
| "ideal (PhaseDamping g) = (g = 0)"
| "ideal (Kraus ks) = list_all scalar_matrix ks"

definition add_all_qubit_quantum_error ::
  "noise_model \<Rightarrow> quantum_error \<Rightarrow> string list \<Rightarrow> noise_model"
where
  "add_all_qubit_quantum_error nm err instructions =
     (if ideal err then nm else nm @ [(err, instructions)])"

text \<open>
  The first part of \<open>simulate\<close> (the lines up to the test of \<open>self.comparison\<close>): the
  value of the local \<open>noise_model\<close>.
\<close>

definition noise_model_of :: "iqft \<Rightarrow> error + noise_model option" where
  "noise_model_of self =
     (if noise self then
        (if noise_type self = Some ''Depolarizing'' then
           then_do (option_of self ''depolarizing'') (\<lambda>v.
           then_do (depolarizing_error v 1) (\<lambda>err.
           Inr (Some (add_all_qubit_quantum_error [] err [''h'']))))
         else if noise_type self = Some ''Amplitude Damping'' then
           then_do (option_of self ''amplitude_damping'') (\<lambda>v.
           then_do (amplitude_damping_error v) (\<lambda>err.
           Inr (Some (add_all_qubit_quantum_error [] err [''h'']))))
         else if noise_type self = Some ''Phase Damping'' then
           then_do (option_of self ''phase_damping'') (\<lambda>v.
           then_do (phase_damping_error v) (\<lambda>err.
           Inr (Some (add_all_qubit_quantum_error [] err [''h'']))))
         else if noise_type self = Some ''Bit flip'' then
           then_do (option_of self ''bit_flip'') (\<lambda>v.
           then_do (kraus_error [scale (sqrt v) eye2, scale (sqrt (1 - v)) pauli_x]) (\<lambda>noise_ops.
           Inr (Some (add_all_qubit_quantum_error [] noise_ops [''h'']))))
         else if noise_type self = Some ''Phase flip'' then
           then_do (option_of self ''phase_flip'') (\<lambda>v.
           then_do (kraus_error [scale (sqrt v) eye2, scale (sqrt (1 - v)) pauli_z]) (\<lambda>noise_ops.
           Inr (Some (add_all_qubit_quantum_error [] noise_ops [''h'']))))
         else Inr (Some []))
      else Inr None)"



section \<open>Simulation\<close>

text \<open>
  The simulators are outside this code. A backend is a parameter: \<open>transpile\<close> maps the
  circuit (or \<open>None\<close>) for a simulator, \<open>run\<close> runs a transpiled circuit with a number of
  shots and gives the job's result. A result holds what its accessors return; an absent
  entry makes the accessor raise.
\<close>

record result =
  res_statevector :: "complex list option"
  res_density_matrix :: "complex list list option"
  res_counts :: "counts option"

record backend =
  transpile :: "quantum_circuit option \<Rightarrow> simulator \<Rightarrow> error + quantum_circuit"
  run :: "simulator \<Rightarrow> quantum_circuit \<Rightarrow> nat \<Rightarrow> error + result"

definition get_statevector :: "result \<Rightarrow> error + complex list" where
  "get_statevector r = (case res_statevector r of None \<Rightarrow> Inl QiskitError | Some v \<Rightarrow> Inr v)"

definition data_density_matrix :: "result \<Rightarrow> error + complex list list" where
  "data_density_matrix r =
     (case res_density_matrix r of None \<Rightarrow> Inl (KeyError ''density_matrix'') | Some m \<Rightarrow> Inr m)"

definition get_counts :: "result \<Rightarrow> error + counts" where
  "get_counts r = (case res_counts r of None \<Rightarrow> Inl QiskitError | Some c \<Rightarrow> Inr c)"

fun diagonal :: "'a list list \<Rightarrow> 'a list" where
  "diagonal [] = []"
| "diagonal (row # rows) = (case row of [] \<Rightarrow> [] | x # _ \<Rightarrow> x # diagonal (map tl rows))"

fun probabilities :: "qstate \<Rightarrow> real list" where
  "probabilities (Statevector v) = map (\<lambda>a. (cmod a)\<^sup>2) v"
| "probabilities (DensityMatrix m) = map Re (diagonal m)"

text \<open>The branch \<open>if self.comparison\<close>: nothing is assigned before both runs are through.\<close>

definition simulate_comparison :: "backend \<Rightarrow> iqft \<Rightarrow> noise_model option \<Rightarrow> iqft \<times> error option" where
  "simulate_comparison be self noise_model =
     (case
        then_do (transpile be (qc self) StatevectorSimulator) (\<lambda>ideal_circ.
        then_do (run be StatevectorSimulator ideal_circ 1024) (\<lambda>ideal_result.
        then_do (get_statevector ideal_result) (\<lambda>ideal_vec.
        then_do (get_counts ideal_result) (\<lambda>ideal_counts.
        then_do (transpile be (qc self) (AerSimulator noise_model)) (\<lambda>noisy_circ.
        then_do (run be (AerSimulator noise_model) noisy_circ 1024) (\<lambda>noisy_result.
        then_do (data_density_matrix noisy_result) (\<lambda>noisy_mat.
        then_do (get_counts noisy_result) (\<lambda>noisy_counts.
        Inr (Statevector ideal_vec, ideal_counts, DensityMatrix noisy_mat, noisy_counts)))))))))
      of
        Inl e \<Rightarrow> (self, Some e)
      | Inr (ideal_state, ideal_counts, noisy_state, noisy_counts) \<Rightarrow>
          (self\<lparr>comp_counts := Some (ideal_counts, noisy_counts),
                comp_fidelity := Some (ideal_state, noisy_state)\<rparr>, None))"

text \<open>
  The two branches under \<open>else\<close> run the same statements and differ in the simulator and
  in the accessor of the state: \<open>if not self.noise\<close> takes the statevector simulator and
  \<open>get_statevector\<close>, its \<open>else\<close> the Aer simulator with the noise model and the
  \<open>density_matrix\<close> entry of the result's data. \<open>simulate_single\<close> is that common body.
  Each assignment to \<open>self\<close> stays when a later call raises.
\<close>

definition simulate_single ::
  "backend \<Rightarrow> iqft \<Rightarrow> simulator \<Rightarrow> (result \<Rightarrow> error + qstate) \<Rightarrow> iqft \<times> error option"
where
  "simulate_single be self sim state_of =
     (case transpile be (qc self) sim of
        Inl e \<Rightarrow> (self, Some e)
      | Inr circ \<Rightarrow>
          let self1 = self\<lparr>target := Some sim\<rparr> in
          (case then_do (run be sim circ 1024) (\<lambda>res. then_do (state_of res) (\<lambda>st. Inr (res, st))) of
             Inl e \<Rightarrow> (self1, Some e)
           | Inr (res, st) \<Rightarrow>
               let self2 = self1\<lparr>resulting_state := Some st,
                                 resulting_probabilities := Some (probabilities st)\<rparr> in
               if measure_flag self then
                 (case get_counts res of
                    Inl e \<Rightarrow> (self2, Some e)
                  | Inr cnt \<Rightarrow> (self2\<lparr>resulting_counts := Some cnt\<rparr>, None))
               else (self2, None)))"

text \<open>\<open>simulate(self)\<close>: the object afterwards and the exception raised, if any.\<close>

definition simulate :: "backend \<Rightarrow> iqft \<Rightarrow> iqft \<times> error option" where
  "simulate be self =
     (case noise_model_of self of
        Inl e \<Rightarrow> (self, Some e)
      | Inr noise_model \<Rightarrow>
          if comparison self then simulate_comparison be self noise_model
          else if \<not> noise self then
            simulate_single be self StatevectorSimulator
              (\<lambda>res. then_do (get_statevector res) (\<lambda>v. Inr (Statevector v)))
          else
            simulate_single be self (AerSimulator noise_model)
              (\<lambda>res. then_do (data_density_matrix res) (\<lambda>m. Inr (DensityMatrix m))))"

definition get_resulting_state :: "iqft \<Rightarrow> qstate option" where
  "get_resulting_state self = resulting_state self"

definition get_resulting_probabilities :: "iqft \<Rightarrow> real list option" where
  "get_resulting_probabilities self = resulting_probabilities self"

definition get_resulting_counts :: "iqft \<Rightarrow> counts option" where
  "get_resulting_counts self = resulting_counts self"

definition get_circuit :: "iqft \<Rightarrow> quantum_circuit option" where
  "get_circuit self = qc self"

definition get_target :: "iqft \<Rightarrow> simulator option" where
  "get_target self = target self"

definition get_comp_fidelity :: "iqft \<Rightarrow> (qstate \<times> qstate) option" where
  "get_comp_fidelity self = comp_fidelity self"

definition get_comp_counts :: "iqft \<Rightarrow> (counts \<times> counts) option" where
  "get_comp_counts self = comp_counts self"

section \<open>The window's \<open>build_circuit\<close>\<close>

text \<open>
  The classes \<open>QFT\<close> and \<open>PhaseEstimation\<close>, the diagram renderer and the image display
  are outside this code and are parameters. \<open>'o\<close> is the type of the objects of the two
  absent classes; building one returns the object afterwards and the image path or the
  exception raised.
\<close>

datatype basis_label = Ket0 | Ket1 | KetPlus | KetMinus | KetI | KetMinusI | OtherLabel string

datatype 'o simulation = QFT_obj 'o | IQFT_obj iqft | PE_obj 'o

record 'o externals =
  circuit_drawer :: "quantum_circuit \<Rightarrow> error + string"
  QFT :: "int \<Rightarrow> string \<Rightarrow> bool \<Rightarrow> string option \<Rightarrow> (string \<times> real) list option \<Rightarrow> bool \<Rightarrow> bool \<Rightarrow> 'o"
  build_qft :: "'o \<Rightarrow> 'o \<times> (error + string)"
  PhaseEstimation :: "int \<Rightarrow> bool \<Rightarrow> string option \<Rightarrow> (string \<times> real) list option \<Rightarrow> bool \<Rightarrow> bool \<Rightarrow> 'o"
  build_phase_estimation :: "'o \<Rightarrow> 'o \<times> (error + string)"
  image_opens :: "string \<Rightarrow> bool"

text \<open>
  The texts the window shows, by their format: \<open>InvalidInput e\<close> is
  \<open>f"Invalid input: {e}"\<close>, \<open>InvalidStateFor k l\<close> is
  \<open>f"Invalid state for qubit {k}: {l}"\<close>, \<open>CircuitBuilt n\<close> is
  \<open>f"Circuit built with {n} qubits"\<close>, \<open>CircuitBuiltUsing n a\<close> is
  \<open>f"Circuit built with {n} qubits using {a} algorithm"\<close>.
\<close>

datatype shown =
    Lit string
  | InvalidInput error
  | InvalidStateFor nat basis_label
  | CircuitBuilt int
  | CircuitBuiltUsing int string
  | ErrorDisplaying

text \<open>
  The window's state that \<open>build_circuit\<close> reads and writes. \<open>qubit_states\<close> and
  \<open>iqft_number_entry\<close> are \<open>None\<close> while the attribute does not exist. The source's
  \<open>self.noise_type\<close> and \<open>self.measure\<close> are \<open>window_noise_type\<close> and \<open>measure_var\<close>;
  \<open>output_text\<close> holds the lines added to the bottom panel and \<open>errors_shown\<close> the
  \<open>messagebox.showerror\<close> calls, title and text.
\<close>

record 'o window =
  n_entry :: string
  algorithm_var :: string
  qubit_states :: "basis_label list option"
  iqft_number_entry :: "string option"
  noise_var :: bool
  window_noise_type :: "string option"
  noise_params :: "(string \<times> real) list option"
  measure_var :: bool
  compare_var :: bool
  current_simulation :: "'o simulation option"
  output_text :: "shown list"
  errors_shown :: "(string \<times> shown) list"
  status_label :: shown
  last_img_path :: "string option"

definition add_text_to_bottom_panel :: "'o window \<Rightarrow> shown \<Rightarrow> 'o window" where
  "add_text_to_bottom_panel w t = w\<lparr>output_text := output_text w @ [t]\<rparr>"

definition showerror :: "'o window \<Rightarrow> string \<Rightarrow> shown \<Rightarrow> 'o window" where
  "showerror w title t = w\<lparr>errors_shown := errors_shown w @ [(title, t)]\<rparr>"

text \<open>\<open>display_circuit\<close> catches its own exceptions and reports them in the status label.\<close>

definition display_circuit :: "'o externals \<Rightarrow> 'o window \<Rightarrow> string \<Rightarrow> 'o window" where
  "display_circuit ext w img_path =
     (if image_opens ext img_path then w\<lparr>last_img_path := Some img_path\<rparr>
      else w\<lparr>status_label := ErrorDisplaying\<rparr>)"

text \<open>The loop of the QFT branch: the state text, or the index and label it stops at.\<close>

fun qft_state_text :: "basis_label list \<Rightarrow> nat \<Rightarrow> string \<Rightarrow> (nat \<times> basis_label) + string" where
  "qft_state_text [] i st = Inr st"
| "qft_state_text (temp # rest) i st =
     (case temp of
        Ket0 \<Rightarrow> qft_state_text rest (i + 1) (st @ ''0'')
      | Ket1 \<Rightarrow> qft_state_text rest (i + 1) (st @ ''1'')
      | KetPlus \<Rightarrow> qft_state_text rest (i + 1) (st @ ''+'')
      | KetMinus \<Rightarrow> qft_state_text rest (i + 1) (st @ ''-'')
      | KetI \<Rightarrow> qft_state_text rest (i + 1) (st @ ''r'')
      | KetMinusI \<Rightarrow> qft_state_text rest (i + 1) (st @ ''l'')
      | OtherLabel s \<Rightarrow> Inl (i, temp))"

text \<open>The end of the \<open>try\<close> block, after a build has returned its image path.\<close>

definition built :: "'o externals \<Rightarrow> 'o window \<Rightarrow> int \<Rightarrow> string \<Rightarrow> string \<Rightarrow> 'o window" where
  "built ext w n algorithm img_path =
     add_text_to_bottom_panel
       ((display_circuit ext w img_path)\<lparr>status_label := CircuitBuilt n\<rparr>)
       (CircuitBuiltUsing n algorithm)"

text \<open>
  The \<open>try\<close> block of \<open>build_circuit\<close>: the window where the block ends and the exception
  that ended it, if any. \<open>self.current_simulation\<close> is assigned before the object's build
  method runs.
\<close>

definition build_circuit_try :: "'o externals \<Rightarrow> 'o window \<Rightarrow> string \<Rightarrow> 'o window \<times> error option" where
  "build_circuit_try ext w n_str =
     (case int_of (Some n_str) of
        Inl e \<Rightarrow> (w, Some e)
      | Inr n \<Rightarrow>
          if n < 1 \<or> n > 10 then
            (w, Some (ValueError (Msg ''Number of qubits must be between 1 and 10'')))
          else
            let algorithm = algorithm_var w in
            if algorithm = ''QFT'' then
              (case qubit_states w of
                 None \<Rightarrow> (w, Some AttributeError)
               | Some labels \<Rightarrow>
                   (case qft_state_text labels 0 [] of
                      Inl (i, temp) \<Rightarrow> (showerror w ''Error'' (InvalidStateFor (i + 1) temp), None)
                    | Inr st \<Rightarrow>
                        let (obj, r) =
                              build_qft ext
                                (QFT ext n st (noise_var w) (window_noise_type w) (noise_params w)
                                   (measure_var w) (compare_var w));
                            w1 = w\<lparr>current_simulation := Some (QFT_obj obj)\<rparr>
                        in (case r of
                              Inl e \<Rightarrow> (w1, Some e)
                            | Inr img_path \<Rightarrow> (built ext w1 n algorithm img_path, None))))
            else if algorithm = ''IQFT'' then
              (case iqft_number_entry w of
                 None \<Rightarrow> (w, Some AttributeError)
               | Some st \<Rightarrow>
                   let (obj, r) =
                         build_iqft (circuit_drawer ext)
                           (IQFT n (Some st) (noise_var w) (window_noise_type w) (noise_params w)
                              (measure_var w) (compare_var w));
                       w1 = w\<lparr>current_simulation := Some (IQFT_obj obj)\<rparr>
                   in (case r of
                         Inl e \<Rightarrow> (w1, Some e)
                       | Inr img_path \<Rightarrow> (built ext w1 n algorithm img_path, None)))
            else if algorithm = ''Phase Estimation'' then
              (let (obj, r) =
                     build_phase_estimation ext
                       (PhaseEstimation ext n (noise_var w) (window_noise_type w) (noise_params w)
                          (measure_var w) (compare_var w));
                   w1 = w\<lparr>current_simulation := Some (PE_obj obj)\<rparr>
               in (case r of
                     Inl e \<Rightarrow> (w1, Some e)
                   | Inr img_path \<Rightarrow> (built ext w1 n algorithm img_path, None)))
            else (w, Some (ValueError (Msg (''Unknown algorithm: '' @ algorithm)))))"

text \<open>\<open>build_circuit(self)\<close>: every exception of the \<open>try\<close> block ends in an error box.\<close>

definition build_circuit :: "'o externals \<Rightarrow> 'o window \<Rightarrow> 'o window" where
  "build_circuit ext w0 =
     (let w = add_text_to_bottom_panel w0 (Lit ''Building quantum circuit...'')
      in case build_circuit_try ext w (n_entry w) of
           (w', Some e) \<Rightarrow> showerror w' ''Error'' (InvalidInput e)
         | (w', None) \<Rightarrow> w')"

text \<open>The window as \<open>__init__\<close> leaves it, with nothing typed yet.\<close>

definition new_window :: "'o window" where
  "new_window =
     \<lparr>n_entry = [], algorithm_var = ''QFT'', qubit_states = None, iqft_number_entry = None,
      noise_var = False, window_noise_type = None, noise_params = None, measure_var = False,
      compare_var = False, current_simulation = None, output_text = [Lit ''Simulator ready''],
      errors_shown = [], status_label = Lit ''Ready to build circuit'', last_img_path = None\<rparr>"

section \<open>Sequences of calls, and stand-ins for the examples\<close>

text \<open>The object after a sequence of calls of \<open>build_iqft\<close> and \<open>simulate\<close>, whatever they
  raise.\<close>

datatype call = Build | Simulate

fun after_calls ::
  "(quantum_circuit \<Rightarrow> error + string) \<Rightarrow> backend \<Rightarrow> call list \<Rightarrow> iqft \<Rightarrow> iqft"
where
  "after_calls drawer be [] self = self"
| "after_calls drawer be (Build # cs) self = after_calls drawer be cs (fst (build_iqft drawer self))"
| "after_calls drawer be (Simulate # cs) self = after_calls drawer be cs (fst (simulate be self))"


definition known_noise_types :: "string list" where
  "known_noise_types =
     [''Depolarizing'', ''Amplitude Damping'', ''Phase Damping'', ''Bit flip'', ''Phase flip'']"

text \<open>
  Stand-ins for the concrete examples only: a renderer that always returns one path, a
  backend that transpiles a circuit to itself and whose every run gives a one-entry
  state and all shots on one outcome, and externals whose absent classes are trivial.
\<close>

definition sample_drawer :: "quantum_circuit \<Rightarrow> error + string" where
  "sample_drawer c = Inr ''circuit.png''"

definition sample_backend :: backend where
  "sample_backend =
     \<lparr>transpile = (\<lambda>c sim. case c of None \<Rightarrow> Inl BackendError | Some c' \<Rightarrow> Inr c'),
      run = (\<lambda>sim c shots.
               Inr \<lparr>res_statevector = Some [1], res_density_matrix = Some [[1]],
                    res_counts = Some [(''0'', shots)]\<rparr>)\<rparr>"

text \<open>
  Two more backends for the examples. The results of \<open>measuring_backend\<close> hold counts
  only for a circuit that measures and a density matrix only for a circuit that saves
  one. \<open>rewriting_backend\<close> transpiles a circuit to one instruction \<open>x\<close> on qubit 0 followed
  by the markers of the circuit, as transpiling merges the one-qubit gates Hadamard,
  phase rotation by \<open>pi\<close>, Hadamard.
\<close>

definition measuring_backend :: backend where
  "measuring_backend =
     \<lparr>transpile = (\<lambda>c sim. case c of None \<Rightarrow> Inl BackendError | Some c' \<Rightarrow> Inr c'),
      run = (\<lambda>sim c shots.
               Inr \<lparr>res_statevector = Some [1],
                    res_density_matrix =
                      (if SaveDensityMatrix \<in> set (data c) then Some [[1]] else None),
                    res_counts =
                      (if MeasureAll \<in> set (data c) then Some [(''0'', shots)] else None)\<rparr>)\<rparr>"


definition sample_externals :: "unit externals" where
  "sample_externals =
     \<lparr>circuit_drawer = sample_drawer,
      QFT = (\<lambda>n st nse nse_type nse_options meas cmp. ()),
      build_qft = (\<lambda>obj. (obj, Inr ''circuit.png'')),
      PhaseEstimation = (\<lambda>n nse nse_type nse_options meas cmp. ()),
      build_phase_estimation = (\<lambda>obj. (obj, Inr ''circuit.png'')),
      image_opens = (\<lambda>path. True)\<rparr>"

section \<open>The gate sequences the specification names\<close>

text \<open>
  The four blocks of the IQFT circuit on \<open>n\<close> qubits for the integer \<open>i\<close>, written as
  closed expressions. \<open>phase_rotations\<close> divides by \<open>1, 2, 4, \<dots>\<close>;
  \<open>spec_phase_rotations\<close> follows the specification's words, an exponent \<open>k\<close> that
  starts at 1 and doubles, so it divides by \<open>2^1, 2^2, 2^4, \<dots>\<close>.
\<close>

definition hadamards :: "nat \<Rightarrow> gate list" where
  "hadamards n = map Hgate [0..<n]"

definition phase_rotations :: "nat \<Rightarrow> int \<Rightarrow> gate list" where
  "phase_rotations n i = map (\<lambda>j. Pgate (Angle i (2 ^ j)) (n - 1 - j)) [0..<n]"

definition spec_phase_rotations :: "nat \<Rightarrow> int \<Rightarrow> gate list" where
  "spec_phase_rotations n i = map (\<lambda>j. Pgate (Angle i (2 ^ (2 ^ j))) (n - 1 - j)) [0..<n]"

definition swap_network :: "nat \<Rightarrow> gate list" where
  "swap_network n = concat (map (\<lambda>q. [SWAPgate q (n - q - 1), Barrier]) [0..<n div 2])"

definition inverse_rotations :: "nat \<Rightarrow> gate list" where
  "inverse_rotations n =
     concat (map (\<lambda>t. map (\<lambda>c. CPgate (Angle (- 1) (2 ^ (t - c))) c t) (rev [0..<t]) @ [Hgate t])
               [0..<n])"

definition trailer :: "iqft \<Rightarrow> gate list" where
  "trailer self =
     (if noise self then [SaveDensityMatrix] else []) @
     (if measure_flag self then [MeasureAll] else [])"

section \<open>Loops of the builder in closed form\<close>

lemma emit_simps [simp]:
  "num_qubits (emit c gs) = num_qubits c"
  "data (emit c gs) = data c @ gs"
  "emit (emit c gs) hs = emit c (gs @ hs)"
  "emit c [] = c"
  by (simp_all add: emit_def)

lemma then_do_simps [simp]:
  "then_do (Inl e) f = Inl e"
  "then_do (Inr x) f = f x"
  by (simp_all add: then_do_def)

text \<open>A loop whose every round appends gates appends the rounds' gates in order.\<close>

lemma for_each_emit:
  assumes "\<And>x c. x \<in> set xs \<Longrightarrow> num_qubits c = m \<Longrightarrow> body x c = Inr (emit c (g x))"
  shows "num_qubits c = m \<Longrightarrow> for_each xs body c = Inr (emit c (concat (map g xs)))"
  using assms
proof (induction xs arbitrary: c)
  case Nil
  then show ?case by simp
next
  case (Cons x xs)
  have "body x c = Inr (emit c (g x))"
    using Cons.prems by simp
  moreover have "for_each xs body (emit c (g x)) = Inr (emit (emit c (g x)) (concat (map g xs)))"
    using Cons.prems by (intro Cons.IH) simp_all
  ultimately show ?case by simp
qed

lemma hadamard_loop:
  assumes "num_qubits c = nat n"
  shows "for_each (py_range n) (\<lambda>qubit c. qc_h c qubit) c = Inr (emit c (hadamards (nat n)))"
proof -
  have "for_each (py_range n) (\<lambda>qubit c. qc_h c qubit) c
      = Inr (emit c (concat (map (\<lambda>q. [Hgate q]) (py_range n))))"
    by (rule for_each_emit [where m = "nat n"]) (simp_all add: assms py_range_def qc_h_def)
  then show ?thesis
    by (simp add: py_range_def hadamards_def)
qed

lemma small_power_converts:
  assumes "j < 1024"
  shows "int (2 ^ j) < float_max_int"
proof -
  have "(2 :: int) ^ j \<le> 2 ^ 1023"
    using assms by (intro power_increasing) simp_all
  moreover have "(2 :: int) ^ 1023 < float_max_int"
    by (simp add: float_max_int_def)
  ultimately show ?thesis
    by simp
qed

text \<open>The loop that carries \<open>curr_num\<close>: the divisor doubles from round to round.\<close>

lemma doubling_loop:
  assumes body: "\<And>q c d. q < m \<Longrightarrow> num_qubits c = m \<Longrightarrow> int d < float_max_int \<Longrightarrow>
                  body q (c, d) = Inr (emit c [Pgate (Angle i d) q], d * 2)"
  shows "\<forall>q \<in> set qs. q < m \<Longrightarrow> num_qubits c = m \<Longrightarrow>
     \<forall>j < length qs. int (d * 2 ^ j) < float_max_int \<Longrightarrow>
     for_each qs body (c, d) =
       Inr (emit c (map (\<lambda>j. Pgate (Angle i (d * 2 ^ j)) (qs ! j)) [0..<length qs]),
            d * 2 ^ length qs)"
proof (induction qs arbitrary: c d)
  case Nil
  then show ?case by simp
next
  case (Cons q qs)
  have shift: "[0..<length (q # qs)] = 0 # map Suc [0..<length qs]"
    by (simp add: upt_conv_Cons map_Suc_upt del: upt_Suc)
  have unroll:
    "map (\<lambda>j. Pgate (Angle i (d * 2 ^ j)) ((q # qs) ! j)) [0..<length (q # qs)] =
       Pgate (Angle i d) q # map (\<lambda>j. Pgate (Angle i (d * 2 * 2 ^ j)) (qs ! j)) [0..<length qs]"
    unfolding shift by (simp add: comp_def)
  have "int d < float_max_int"
    using Cons.prems(3) [rule_format, of 0] by simp
  then have "body q (c, d) = Inr (emit c [Pgate (Angle i d) q], d * 2)"
    using Cons.prems(1,2) by (intro body) simp_all
  moreover have "\<forall>j < length qs. int (d * 2 * 2 ^ j) < float_max_int"
  proof (intro allI impI)
    fix j assume "j < length qs"
    then show "int (d * 2 * 2 ^ j) < float_max_int"
      using Cons.prems(3) [rule_format, of "Suc j"] by (simp add: mult.assoc)
  qed
  then have "for_each qs body (emit c [Pgate (Angle i d) q], d * 2) =
      Inr (emit (emit c [Pgate (Angle i d) q])
             (map (\<lambda>j. Pgate (Angle i (d * 2 * 2 ^ j)) (qs ! j)) [0..<length qs]),
           d * 2 * 2 ^ length qs)"
    using Cons.prems(1,2) by (intro Cons.IH) simp_all
  ultimately show ?case
    unfolding unroll by simp
qed

lemma phase_loop:
  assumes "int_of st = Inr i" and "\<bar>i\<bar> < float_max_int" and "num_qubits c = nat n"
    and "n \<le> 1024"
  shows "for_each (rev (py_range n))
           (\<lambda>qubit (c, curr_num).
              then_do (int_of st) (\<lambda>i.
              then_do (times_pi_over i curr_num) (\<lambda>theta.
              then_do (qc_p c theta qubit) (\<lambda>c'.
              Inr (c', curr_num * 2)))))
           (c, 1) =
         Inr (emit c (phase_rotations (nat n) i), 2 ^ nat n)"
proof -
  have "map (\<lambda>j. Pgate (Angle i (1 * 2 ^ j)) (rev [0..<nat n] ! j)) [0..<length (rev [0..<nat n])] =
        phase_rotations (nat n) i"
    by (simp add: rev_nth phase_rotations_def)
  moreover have "\<forall>j < length (rev (py_range n)). int (1 * 2 ^ j) < float_max_int"
  proof (intro allI impI)
    fix j assume "j < length (rev (py_range n))"
    then have "j < 1024"
      using assms(4) by (simp add: py_range_def)
    then show "int (1 * 2 ^ j) < float_max_int"
      using small_power_converts [of j] by simp
  qed
  ultimately show ?thesis
    using assms(1-3)
      doubling_loop [where m = "nat n" and i = i and qs = "rev (py_range n)" and c = c and d = 1
        and body = "\<lambda>qubit (c, curr_num).
              then_do (int_of st) (\<lambda>i.
              then_do (times_pi_over i curr_num) (\<lambda>theta.
              then_do (qc_p c theta qubit) (\<lambda>c'.
              Inr (c', curr_num * 2))))"]
    by (simp add: py_range_def times_pi_over_def qc_p_def)
qed

lemma swap_loop:
  assumes "num_qubits c = nat n"
  shows "for_each (py_range (n div 2))
           (\<lambda>qubit c. then_do (qc_swap c qubit (nat (n - int qubit - 1))) qc_barrier) c =
         Inr (emit c (swap_network (nat n)))"
proof -
  have "for_each (py_range (n div 2))
          (\<lambda>qubit c. then_do (qc_swap c qubit (nat (n - int qubit - 1))) qc_barrier) c =
        Inr (emit c (concat (map (\<lambda>q. [SWAPgate q (nat n - q - 1), Barrier]) (py_range (n div 2)))))"
  proof (rule for_each_emit [where m = "nat n"])
    fix x and c' :: quantum_circuit
    assume x: "x \<in> set (py_range (n div 2))" and c': "num_qubits c' = nat n"
    from x have "int x < n div 2"
      by (auto simp: py_range_def)
    then have "nat (n - int x - 1) = nat n - x - 1" "x < nat n" "nat n - x - 1 < nat n"
      "x \<noteq> nat n - x - 1"
      by linarith+
    then show "then_do (qc_swap c' x (nat (n - int x - 1))) qc_barrier =
        Inr (emit c' [SWAPgate x (nat n - x - 1), Barrier])"
      using c' by (simp add: qc_swap_def qc_barrier_def)
  qed (rule assms)
  moreover have "py_range (n div 2) = [0..<nat n div 2]"
    by (cases "n \<ge> 0") (simp_all add: py_range_def nat_div_distrib)
  ultimately show ?thesis
    by (simp add: swap_network_def)
qed

lemma control_loop:
  assumes "num_qubits c = nat n" and "t < nat n" and "n \<le> 1024"
  shows "for_each (rev (py_range (int t)))
           (\<lambda>ctl c'.
              then_do (times_pi_over (- 1) (2 ^ (t - ctl))) (\<lambda>angle. qc_cp c' angle ctl t)) c =
         Inr (emit c (map (\<lambda>ctl. CPgate (Angle (- 1) (2 ^ (t - ctl))) ctl t) (rev [0..<t])))"
proof -
  have "for_each (rev (py_range (int t)))
          (\<lambda>ctl c'.
             then_do (times_pi_over (- 1) (2 ^ (t - ctl))) (\<lambda>angle. qc_cp c' angle ctl t)) c =
        Inr (emit c (concat (map (\<lambda>ctl. [CPgate (Angle (- 1) (2 ^ (t - ctl))) ctl t])
                              (rev (py_range (int t))))))"
  proof (rule for_each_emit [where m = "nat n"])
    fix x and c' :: quantum_circuit
    assume "x \<in> set (rev (py_range (int t)))" and c': "num_qubits c' = nat n"
    then have x: "x < t"
      by (simp add: py_range_def)
    then have "t - x < 1024"
      using assms(2,3) by linarith
    moreover have "\<bar>- 1\<bar> < float_max_int"
      by (simp add: float_max_int_def)
    ultimately have "times_pi_over (- 1) (2 ^ (t - x)) = Inr (Angle (- 1) (2 ^ (t - x)))"
      using small_power_converts [of "t - x"] by (simp only: times_pi_over_def simp_thms if_True)
    then show "then_do (times_pi_over (- 1) (2 ^ (t - x))) (\<lambda>angle. qc_cp c' angle x t) =
        Inr (emit c' [CPgate (Angle (- 1) (2 ^ (t - x))) x t])"
      using x c' assms(2) by (simp add: qc_cp_def)
  qed (rule assms)
  moreover have "concat (map (\<lambda>x. [f x]) xs) = map f xs" for f :: "nat \<Rightarrow> gate" and xs
    by (induction xs) simp_all
  ultimately show ?thesis
    by (simp add: py_range_def)
qed

lemma rotations_loop:
  assumes "num_qubits c = nat n" and "n \<le> 1024"
  shows "add_iqft_rotations c n = Inr (emit c (inverse_rotations (nat n)))"
proof -
  have "for_each (py_range n)
          (\<lambda>tgt c. then_do
             (for_each (rev (py_range (int tgt)))
                (\<lambda>ctl c'.
                   then_do (times_pi_over (- 1) (2 ^ (tgt - ctl))) (\<lambda>angle.
                   qc_cp c' angle ctl tgt)) c)
             (\<lambda>c'. qc_h c' tgt)) c =
        Inr (emit c (concat (map
          (\<lambda>t. map (\<lambda>ctl. CPgate (Angle (- 1) (2 ^ (t - ctl))) ctl t) (rev [0..<t]) @ [Hgate t])
          (py_range n))))"
  proof (rule for_each_emit [where m = "nat n"])
    fix x and c' :: quantum_circuit
    assume "x \<in> set (py_range n)" and c': "num_qubits c' = nat n"
    then have x: "x < nat n"
      by (simp add: py_range_def)
    show "then_do
            (for_each (rev (py_range (int x)))
               (\<lambda>ctl c'.
                  then_do (times_pi_over (- 1) (2 ^ (x - ctl))) (\<lambda>angle. qc_cp c' angle ctl x)) c')
            (\<lambda>c'. qc_h c' x) =
          Inr (emit c' (map (\<lambda>ctl. CPgate (Angle (- 1) (2 ^ (x - ctl))) ctl x) (rev [0..<x]) @ [Hgate x]))"
      using control_loop [OF c' x assms(2)] x c' by (simp add: qc_h_def)
  qed (rule assms)
  then show ?thesis
    by (simp add: add_iqft_rotations_def inverse_rotations_def py_range_def)
qed

text \<open>The whole of \<open>add_iqft_circuit\<close> on a circuit of \<open>n\<close> qubits, when the state text is an
  integer that converts to a float.\<close>

lemma add_iqft_circuit_closed:
  assumes "int_of (state self) = Inr i" and "\<bar>i\<bar> < float_max_int"
    and "num_qubits c = nat (n_qubits self)" and "n_qubits self \<le> 1024"
    and "1 \<le> n_qubits self"
  shows "add_iqft_circuit self c =
     Inr (emit c (hadamards (nat (n_qubits self)) @ phase_rotations (nat (n_qubits self)) i @
                  swap_network (nat (n_qubits self)) @ inverse_rotations (nat (n_qubits self)) @
                  trailer self))"
proof -
  let ?n = "nat (n_qubits self)"
  let ?c1 = "emit c (hadamards ?n)"
  let ?c2 = "emit ?c1 (phase_rotations ?n i)"
  let ?c3 = "emit ?c2 (swap_network ?n)"
  let ?c4 = "emit ?c3 (inverse_rotations ?n)"
  have n1: "num_qubits ?c1 = ?n" and n2: "num_qubits ?c2 = ?n" and n3: "num_qubits ?c3 = ?n"
    using assms(3) by simp_all
  note steps = hadamard_loop [OF assms(3)] phase_loop [OF assms(1,2) n1 assms(4)] swap_loop [OF n2]
    rotations_loop [OF n3 assms(4)]
  have "add_iqft_circuit self c =
      then_do (if noise self then qc_save_density_matrix ?c4 else Inr ?c4) (\<lambda>c5.
        if measure_flag self then qc_measure_all c5 else Inr c5)"
    unfolding add_iqft_circuit_def by (simp only: steps then_do_simps prod.case)
  also have "\<dots> = Inr (emit ?c4 (trailer self))"
    using assms(3,5) by (simp add: trailer_def qc_save_density_matrix_def qc_measure_all_def)
  finally show ?thesis
    by simp
qed

text \<open>When the state text is no integer, the first round of the phase loop raises.\<close>

lemma first_phase_round:
  assumes "1 \<le> n"
  shows "for_each (rev (py_range n)) body s =
         (case body (nat n - 1) s of Inl e \<Rightarrow> Inl e | Inr s' \<Rightarrow> for_each (rev [0..<nat n - 1]) body s')"
proof -
  obtain k where k: "nat n = Suc k"
    using assms by (cases "nat n") auto
  then have r: "rev (py_range n) = k # rev [0..<k]" and m: "nat n - 1 = k"
    by (simp_all add: py_range_def)
  show ?thesis
    unfolding r m by simp
qed

lemma add_iqft_circuit_raises:
  assumes "int_of (state self) = Inl e" and "1 \<le> n_qubits self"
    and "num_qubits c = nat (n_qubits self)"
  shows "add_iqft_circuit self c = Inl e"
  unfolding add_iqft_circuit_def
  by (simp add: hadamard_loop [OF assms(3)] first_phase_round [OF assms(2)] assms(1))

lemma add_iqft_circuit_overflows:
  assumes "int_of (state self) = Inr i" and "\<not> \<bar>i\<bar> < float_max_int" and "1 \<le> n_qubits self"
    and "num_qubits c = nat (n_qubits self)"
  shows "add_iqft_circuit self c = Inl OverflowError"
  unfolding add_iqft_circuit_def
  by (simp add: hadamard_loop [OF assms(4)] first_phase_round [OF assms(3)] assms(1,2)
      times_pi_over_def)

lemma fresh_circuit:
  "0 \<le> n \<Longrightarrow> then_do (QuantumCircuit n) f = f \<lparr>num_qubits = nat n, data = []\<rparr>"
  by (simp add: QuantumCircuit_def)

lemma algorithm_gates_unmarked:
  "SaveDensityMatrix \<notin> set (hadamards n @ phase_rotations n i @ swap_network n @ inverse_rotations n)"
  "MeasureAll \<notin> set (hadamards n @ phase_rotations n i @ swap_network n @ inverse_rotations n)"
  by (auto simp: hadamards_def phase_rotations_def swap_network_def inverse_rotations_def)

section \<open>The gate sequence of the IQFT builder\<close>

text \<open>
  Claim C1, as the code has it. For every qubit count \<open>n\<close> from 1 to 10 and every ASCII
  state text that is an integer \<open>i\<close> which converts to a float, building the circuit
  on \<open>n\<close> fresh qubits succeeds and gives exactly this gate sequence: a Hadamard on every
  qubit \<open>0, \<dots>, n - 1\<close>; then for \<open>j = 0, \<dots>, n - 1\<close> a phase rotation on qubit
  \<open>n - 1 - j\<close> (the qubits in reverse order) of angle \<open>i * pi / 2^j\<close>, the divisor starting
  at 1 and doubling after each qubit; then for \<open>q = 0, \<dots>, n div 2 - 1\<close> a swap of \<open>q\<close> with
  \<open>n - q - 1\<close> followed by a barrier; then for each target \<open>t = 0, \<dots>, n - 1\<close> the
  controlled phase rotations of angle \<open>- pi / 2^(t - c)\<close> from the controls
  \<open>c = t - 1, \<dots>, 0\<close>, followed by a Hadamard on \<open>t\<close>; and last the markers that the noise
  and measurement flags ask for.
\<close>

theorem iqft_gate_sequence:
  assumes "1 \<le> n_qubits self" and "n_qubits self \<le> 10"
    and "state self = Some s" and "ascii_text s" and "py_int s = Some i"
    and "\<bar>i\<bar> < float_max_int"
  shows "then_do (QuantumCircuit (n_qubits self)) (add_iqft_circuit self) =
     Inr \<lparr>num_qubits = nat (n_qubits self),
          data =
            map Hgate [0..<nat (n_qubits self)] @
            map (\<lambda>j. Pgate (Angle i (2 ^ j)) (nat (n_qubits self) - 1 - j)) [0..<nat (n_qubits self)] @
            concat (map (\<lambda>q. [SWAPgate q (nat (n_qubits self) - q - 1), Barrier])
                      [0..<nat (n_qubits self) div 2]) @
            concat (map (\<lambda>t. map (\<lambda>c. CPgate (Angle (- 1) (2 ^ (t - c))) c t) (rev [0..<t]) @ [Hgate t])
                      [0..<nat (n_qubits self)]) @
            (if noise self then [SaveDensityMatrix] else []) @
            (if measure_flag self then [MeasureAll] else [])\<rparr>"
proof -
  have i: "int_of (state self) = Inr i"
    by (simp add: int_of_def assms(3,5))
  have "add_iqft_circuit self \<lparr>num_qubits = nat (n_qubits self), data = []\<rparr> =
     Inr (emit \<lparr>num_qubits = nat (n_qubits self), data = []\<rparr>
            (hadamards (nat (n_qubits self)) @ phase_rotations (nat (n_qubits self)) i @
             swap_network (nat (n_qubits self)) @ inverse_rotations (nat (n_qubits self)) @
             trailer self))"
    using assms(1,2) by (intro add_iqft_circuit_closed [OF i assms(6)]) simp_all
  moreover have "0 \<le> n_qubits self"
    using assms(1) by simp
  ultimately show ?thesis
    by (simp add: fresh_circuit emit_def hadamards_def phase_rotations_def
        swap_network_def inverse_rotations_def trailer_def)
qed

theorem iqft_gate_sequence_witness:
  "1 \<le> n_qubits (IQFT 3 (Some ''5'') False None None False False) \<and>
   n_qubits (IQFT 3 (Some ''5'') False None None False False) \<le> 10 \<and>
   state (IQFT 3 (Some ''5'') False None None False False) = Some ''5'' \<and>
   ascii_text ''5'' \<and> py_int ''5'' = Some 5 \<and> \<bar>5\<bar> < float_max_int \<and>
   then_do (QuantumCircuit 3) (add_iqft_circuit (IQFT 3 (Some ''5'') False None None False False)) =
     Inr \<lparr>num_qubits = 3,
          data = [Hgate 0, Hgate 1, Hgate 2,
                  Pgate (Angle 5 1) 2, Pgate (Angle 5 2) 1, Pgate (Angle 5 4) 0,
                  SWAPgate 0 2, Barrier,
                  Hgate 0,
                  CPgate (Angle (- 1) 2) 0 1, Hgate 1,
                  CPgate (Angle (- 1) 2) 1 2, CPgate (Angle (- 1) 4) 0 2, Hgate 2]\<rparr>"
proof -
  let ?s = "IQFT 3 (Some ''5'') False None None False False"
  have h1: "1 \<le> n_qubits ?s" and h1': "n_qubits ?s \<le> 10" and h2: "state ?s = Some ''5''"
    by (simp_all add: IQFT_def)
  have h3: "ascii_text ''5''"
    by (simp add: ascii_text_def)
  have h4: "py_int ''5'' = Some 5"
    by (simp add: py_int_def int_max_str_digits_def strip_def is_space_def is_digit_def digit_val_def)
  have h5: "\<bar>5\<bar> < float_max_int"
    by (simp add: float_max_int_def)
  have n: "n_qubits ?s = 3" and flags: "\<not> noise ?s" "\<not> measure_flag ?s"
    by (simp_all add: IQFT_def)
  show ?thesis
    using h1 h1' h2 h3 h4 h5 iqft_gate_sequence [OF h1 h1' h2 h3 h4 h5]
    unfolding n
    by (simp add: flags upt_conv_Cons)
qed

text \<open>
  The claim as the specification words it, with an exponent \<open>k\<close> that starts at 1 and
  doubles, fails already on one qubit with the state text \<open>1\<close>: the code emits the phase
  rotation of angle \<open>pi\<close> (divisor 1), the specification's wording gives \<open>pi / 2\<close>.
\<close>

theorem iqft_phase_divisor_counterexample:
  "then_do (QuantumCircuit 1) (add_iqft_circuit (IQFT 1 (Some ''1'') False None None False False)) =
     Inr \<lparr>num_qubits = 1, data = [Hgate 0, Pgate (Angle 1 1) 0, Hgate 0]\<rparr> \<and>
   hadamards 1 @ spec_phase_rotations 1 1 @ swap_network 1 @ inverse_rotations 1 =
     [Hgate 0, Pgate (Angle 1 (2 ^ 1)) 0, Hgate 0] \<and>
   angle_val (Angle 1 1) = pi \<and> angle_val (Angle 1 (2 ^ 1)) = pi / 2 \<and>
   angle_val (Angle 1 1) \<noteq> angle_val (Angle 1 (2 ^ 1))"
  by (simp add: then_do_def QuantumCircuit_def add_iqft_circuit_def IQFT_def py_range_def
      add_iqft_rotations_def int_of_def py_int_def int_max_str_digits_def strip_def is_space_def is_digit_def digit_val_def
      times_pi_over_def float_max_int_def qc_h_def qc_p_def emit_def
      hadamards_def spec_phase_rotations_def swap_network_def inverse_rotations_def angle_val_def)

section \<open>Which state texts the builder rejects\<close>

text \<open>
  Claim C4, as the code has it. For every \<open>n\<close> from 1 to 10 and every ASCII state text \<open>s\<close>, building
  the circuit fails exactly when \<open>s\<close> is no integer (the \<open>ValueError\<close> of \<open>int\<close>) or is an
  integer too large to convert to a float (\<open>OverflowError\<close>). Every other integer is
  accepted, negative ones and ones from \<open>2^n\<close> on included, and the build gives the
  circuit of that integer; in particular every integer \<open>0 \<le> i < 2^n\<close> is accepted.
\<close>

theorem iqft_state_text_validation:
  assumes "1 \<le> n_qubits self" and "n_qubits self \<le> 10" and "state self = Some s"
    and "ascii_text s"
  shows "then_do (QuantumCircuit (n_qubits self)) (add_iqft_circuit self) =
     (case py_int s of
        None \<Rightarrow> Inl (ValueError (IntMessage s))
      | Some i \<Rightarrow>
          if \<bar>i\<bar> < float_max_int then
            Inr \<lparr>num_qubits = nat (n_qubits self),
                 data = hadamards (nat (n_qubits self)) @ phase_rotations (nat (n_qubits self)) i @
                        swap_network (nat (n_qubits self)) @ inverse_rotations (nat (n_qubits self)) @
                        trailer self\<rparr>
          else Inl OverflowError) \<and>
     (\<forall>i. py_int s = Some i \<longrightarrow> 0 \<le> i \<longrightarrow> i < 2 ^ nat (n_qubits self) \<longrightarrow>
          \<bar>i\<bar> < float_max_int)"
proof -
  let ?fresh = "\<lparr>num_qubits = nat (n_qubits self), data = []\<rparr>"
  have n0: "0 \<le> n_qubits self"
    using assms(1) by simp
  have nq: "num_qubits ?fresh = nat (n_qubits self)"
    by simp
  have build: "then_do (QuantumCircuit (n_qubits self)) (add_iqft_circuit self) =
     (case py_int s of
        None \<Rightarrow> Inl (ValueError (IntMessage s))
      | Some i \<Rightarrow>
          if \<bar>i\<bar> < float_max_int then
            Inr \<lparr>num_qubits = nat (n_qubits self),
                 data = hadamards (nat (n_qubits self)) @ phase_rotations (nat (n_qubits self)) i @
                        swap_network (nat (n_qubits self)) @ inverse_rotations (nat (n_qubits self)) @
                        trailer self\<rparr>
          else Inl OverflowError)"
  proof (cases "py_int s")
    case None
    then have "int_of (state self) = Inl (ValueError (IntMessage s))"
      by (simp add: int_of_def assms(3))
    from add_iqft_circuit_raises [OF this assms(1) nq] None show ?thesis
      by (simp add: fresh_circuit [OF n0])
  next
    case (Some i)
    then have i: "int_of (state self) = Inr i"
      by (simp add: int_of_def assms(3))
    have n1024: "n_qubits self \<le> 1024"
      using assms(2) by simp
    show ?thesis
    proof (cases "\<bar>i\<bar> < float_max_int")
      case True
      from add_iqft_circuit_closed [OF i True nq n1024 assms(1)] Some True show ?thesis
        by (simp add: fresh_circuit [OF n0] emit_def)
    next
      case False
      from add_iqft_circuit_overflows [OF i False assms(1) nq] Some False show ?thesis
        by (simp add: fresh_circuit [OF n0])
    qed
  qed
  have "\<bar>i\<bar> < float_max_int"
    if "0 \<le> i" and "i < 2 ^ nat (n_qubits self)" for i :: int
  proof -
    have "nat (n_qubits self) \<le> 10"
      using assms(2) by simp
    then have "(2 :: int) ^ nat (n_qubits self) \<le> 2 ^ 10"
      by (intro power_increasing) simp_all
    moreover have "(2 :: int) ^ 10 < float_max_int"
      by (simp add: float_max_int_def)
    ultimately show ?thesis
      using that by simp
  qed
  with build show ?thesis
    by blast
qed

theorem iqft_state_text_validation_witness:
  "1 \<le> n_qubits (IQFT 2 (Some ''-1'') False None None False False) \<and>
   n_qubits (IQFT 2 (Some ''-1'') False None None False False) \<le> 10 \<and>
   state (IQFT 2 (Some ''-1'') False None None False False) = Some ''-1'' \<and>
   ascii_text ''-1'' \<and>
   then_do (QuantumCircuit 2) (add_iqft_circuit (IQFT 2 (Some ''-1'') False None None False False)) =
     Inr \<lparr>num_qubits = 2,
          data = [Hgate 0, Hgate 1, Pgate (Angle (- 1) 1) 1, Pgate (Angle (- 1) 2) 0,
                  SWAPgate 0 1, Barrier, Hgate 0, CPgate (Angle (- 1) 2) 0 1, Hgate 1]\<rparr> \<and>
   1 \<le> n_qubits (IQFT 2 (Some ''two'') False None None False False) \<and>
   n_qubits (IQFT 2 (Some ''two'') False None None False False) \<le> 10 \<and>
   state (IQFT 2 (Some ''two'') False None None False False) = Some ''two'' \<and>
   ascii_text ''two'' \<and>
   then_do (QuantumCircuit 2) (add_iqft_circuit (IQFT 2 (Some ''two'') False None None False False)) =
     Inl (ValueError (IntMessage ''two''))"
proof -
  let ?a = "IQFT 2 (Some ''-1'') False None None False False"
  let ?b = "IQFT 2 (Some ''two'') False None None False False"
  have a1: "1 \<le> n_qubits ?a" and a2: "state ?a = Some ''-1''"
    and b1: "1 \<le> n_qubits ?b" and b2: "state ?b = Some ''two''"
    and a3: "n_qubits ?a \<le> 10" and b3: "n_qubits ?b \<le> 10"
    by (simp_all add: IQFT_def)
  have a4: "ascii_text ''-1''" and b4: "ascii_text ''two''"
    by (simp_all add: ascii_text_def)
  have pa: "py_int ''-1'' = Some (- 1)" and pb: "py_int ''two'' = None"
    by (simp_all add: py_int_def int_max_str_digits_def strip_def is_space_def is_digit_def digit_val_def)
  have na: "n_qubits ?a = 2" "n_qubits ?b = 2"
    by (simp_all add: IQFT_def)
  have tr: "trailer ?a = []"
    by (simp add: trailer_def IQFT_def)
  show ?thesis
    using a1 a2 a3 a4 b1 b2 b3 b4
      iqft_state_text_validation [OF a1 a3 a2 a4] iqft_state_text_validation [OF b1 b3 b2 b4]
    unfolding na pa pb tr
    by (simp add: float_max_int_def hadamards_def phase_rotations_def swap_network_def
        inverse_rotations_def upt_conv_Cons)
qed

text \<open>
  The claim as stated fails on two qubits: the negative integer \<open>-1\<close> and the integer
  \<open>4 = 2^2\<close> are both accepted and a circuit is built.
\<close>

theorem iqft_state_range_counterexample:
  "py_int ''-1'' = Some (- 1) \<and>
   then_do (QuantumCircuit 2) (add_iqft_circuit (IQFT 2 (Some ''-1'') False None None False False)) =
     Inr \<lparr>num_qubits = 2,
          data = [Hgate 0, Hgate 1, Pgate (Angle (- 1) 1) 1, Pgate (Angle (- 1) 2) 0,
                  SWAPgate 0 1, Barrier, Hgate 0, CPgate (Angle (- 1) 2) 0 1, Hgate 1]\<rparr> \<and>
   py_int ''4'' = Some 4 \<and> (2 :: int) ^ 2 \<le> 4 \<and>
   then_do (QuantumCircuit 2) (add_iqft_circuit (IQFT 2 (Some ''4'') False None None False False)) =
     Inr \<lparr>num_qubits = 2,
          data = [Hgate 0, Hgate 1, Pgate (Angle 4 1) 1, Pgate (Angle 4 2) 0,
                  SWAPgate 0 1, Barrier, Hgate 0, CPgate (Angle (- 1) 2) 0 1, Hgate 1]\<rparr>"
  by (simp add: then_do_def QuantumCircuit_def add_iqft_circuit_def IQFT_def py_range_def
      add_iqft_rotations_def int_of_def py_int_def int_max_str_digits_def strip_def is_space_def is_digit_def digit_val_def
      times_pi_over_def float_max_int_def qc_h_def qc_p_def qc_cp_def qc_swap_def qc_barrier_def
      emit_def upt_conv_Cons)

section \<open>The markers that end the circuit\<close>

text \<open>
  Claim C7. Whenever the circuit is built (a qubit count from 1 to 10, an ASCII state
  text that is an integer which converts to a float), the build with both flags cleared
  gives the algorithm's own gates, which hold neither marker, and the build with the
  flags as they are gives those gates followed by the density-matrix marker if and only
  if noise is requested and then by the all-qubit measurement if and only if measurement
  is requested, and by nothing else.
\<close>

theorem markers_after_algorithm_gates:
  assumes "1 \<le> n_qubits self" and "n_qubits self \<le> 10"
    and "state self = Some s" and "ascii_text s" and "py_int s = Some i"
    and "\<bar>i\<bar> < float_max_int"
  shows "(case then_do (QuantumCircuit (n_qubits self))
                 (add_iqft_circuit (self\<lparr>noise := False, measure_flag := False\<rparr>)) of
            Inl e \<Rightarrow> False
          | Inr c0 \<Rightarrow>
              SaveDensityMatrix \<notin> set (data c0) \<and> MeasureAll \<notin> set (data c0) \<and>
              then_do (QuantumCircuit (n_qubits self)) (add_iqft_circuit self) =
                Inr (c0\<lparr>data := data c0 @
                           (if noise self then [SaveDensityMatrix] else []) @
                           (if measure_flag self then [MeasureAll] else [])\<rparr>))"
proof -
  let ?n = "nat (n_qubits self)"
  let ?plain = "self\<lparr>noise := False, measure_flag := False\<rparr>"
  let ?fresh = "\<lparr>num_qubits = ?n, data = []\<rparr>"
  let ?body = "hadamards ?n @ phase_rotations ?n i @ swap_network ?n @ inverse_rotations ?n"
  have i: "int_of (state self) = Inr i"
    by (simp add: int_of_def assms(3,5))
  have n0: "0 \<le> n_qubits self"
    using assms(1) by simp
  have plain: "add_iqft_circuit ?plain ?fresh = Inr (emit ?fresh ?body)"
    using add_iqft_circuit_closed [of ?plain i ?fresh] i assms(1,2,6) by (simp add: trailer_def)
  have full: "add_iqft_circuit self ?fresh = Inr (emit ?fresh (?body @ trailer self))"
    using add_iqft_circuit_closed [of self i ?fresh] i assms(1,2,6) by simp
  show ?thesis
    using algorithm_gates_unmarked [of ?n i]
    by (simp add: fresh_circuit [OF n0] plain full emit_def trailer_def)
qed

theorem markers_after_algorithm_gates_witness:
  "1 \<le> n_qubits (IQFT 2 (Some ''3'') True None None True False) \<and>
   n_qubits (IQFT 2 (Some ''3'') True None None True False) \<le> 10 \<and>
   state (IQFT 2 (Some ''3'') True None None True False) = Some ''3'' \<and>
   ascii_text ''3'' \<and> py_int ''3'' = Some 3 \<and> \<bar>3\<bar> < float_max_int \<and>
   then_do (QuantumCircuit 2) (add_iqft_circuit (IQFT 2 (Some ''3'') False None None False False)) =
     Inr \<lparr>num_qubits = 2,
          data = [Hgate 0, Hgate 1, Pgate (Angle 3 1) 1, Pgate (Angle 3 2) 0, SWAPgate 0 1, Barrier,
                  Hgate 0, CPgate (Angle (- 1) 2) 0 1, Hgate 1]\<rparr> \<and>
   then_do (QuantumCircuit 2) (add_iqft_circuit (IQFT 2 (Some ''3'') True None None True False)) =
     Inr \<lparr>num_qubits = 2,
          data = [Hgate 0, Hgate 1, Pgate (Angle 3 1) 1, Pgate (Angle 3 2) 0, SWAPgate 0 1, Barrier,
                  Hgate 0, CPgate (Angle (- 1) 2) 0 1, Hgate 1, SaveDensityMatrix, MeasureAll]\<rparr>"
proof -
  let ?s = "IQFT 2 (Some ''3'') True None None True False"
  have h1: "1 \<le> n_qubits ?s" and h1': "n_qubits ?s \<le> 10" and h2: "state ?s = Some ''3''"
    by (simp_all add: IQFT_def)
  have h3: "ascii_text ''3''"
    by (simp add: ascii_text_def)
  have h4: "py_int ''3'' = Some 3"
    by (simp add: py_int_def int_max_str_digits_def strip_def is_space_def is_digit_def digit_val_def)
  have h5: "\<bar>3\<bar> < float_max_int"
    by (simp add: float_max_int_def)
  have plain: "?s\<lparr>noise := False, measure_flag := False\<rparr> =
      IQFT 2 (Some ''3'') False None None False False"
    by (simp add: IQFT_def)
  have ev: "then_do (QuantumCircuit 2)
              (add_iqft_circuit (IQFT 2 (Some ''3'') False None None False False)) =
     Inr \<lparr>num_qubits = 2,
          data = [Hgate 0, Hgate 1, Pgate (Angle 3 1) 1, Pgate (Angle 3 2) 0, SWAPgate 0 1, Barrier,
                  Hgate 0, CPgate (Angle (- 1) 2) 0 1, Hgate 1]\<rparr>"
    by (simp add: then_do_def QuantumCircuit_def add_iqft_circuit_def IQFT_def py_range_def
      add_iqft_rotations_def int_of_def py_int_def int_max_str_digits_def strip_def is_space_def
      is_digit_def digit_val_def times_pi_over_def float_max_int_def qc_h_def qc_p_def qc_cp_def
      qc_swap_def qc_barrier_def emit_def upt_conv_Cons)
  have n: "n_qubits ?s = 2" "noise ?s" "measure_flag ?s"
    by (simp_all add: IQFT_def)
  show ?thesis
    using h1 h1' h2 h3 h4 h5 markers_after_algorithm_gates [OF h1 h1' h2 h3 h4 h5]
    unfolding plain n(1) ev
    by (simp add: n(2,3))
qed

section \<open>The Kraus pairs of the flip channels\<close>

lemma transpose_2x2: "transpose [[a, b], [c, d]] = [[a, c], [b, d :: real]]"
  by (simp add: transpose.simps)

lemma flip_cptp:
  assumes "0 \<le> p" and "p \<le> 1"
  shows "is_cptp [scale (sqrt p) eye2, scale (sqrt (1 - p)) pauli_x]"
    and "is_cptp [scale (sqrt p) eye2, scale (sqrt (1 - p)) pauli_z]"
  using assms
  by (simp_all add: is_cptp_def scale_def eye2_def pauli_x_def pauli_z_def mat_mul_def mat_add_def
      dot_def transpose_2x2)

text \<open>
  Claim C2. For every parameter \<open>p\<close> in \<open>[0, 1]\<close>, with noise requested, the error that
  the type \<open>Bit flip\<close> hands to the noise model is the one built from the Kraus pair
  \<open>K0 = sqrt p * I\<close>, \<open>K1 = sqrt (1 - p) * X\<close>, and that of the type \<open>Phase flip\<close> the one
  built from \<open>K0 = sqrt p * I\<close>, \<open>K1 = sqrt (1 - p) * Z\<close>: \<open>p\<close> weights the identity. The
  pair passes the library's trace-preservation check, and the model is what
  \<open>add_all_qubit_quantum_error\<close> makes of the empty model, this error and the instruction
  name \<open>h\<close>.
\<close>

theorem flip_channel_kraus_pairs:
  assumes "0 \<le> p" and "p \<le> 1" and "noise self" and "noise_options self = Some opts"
  shows "(noise_type self = Some ''Bit flip'' \<longrightarrow> map_of opts ''bit_flip'' = Some p \<longrightarrow>
            noise_model_of self =
              Inr (Some (add_all_qubit_quantum_error []
                           (Kraus [[[sqrt p, 0], [0, sqrt p]],
                                   [[0, sqrt (1 - p)], [sqrt (1 - p), 0]]])
                           [''h'']))) \<and>
         (noise_type self = Some ''Phase flip'' \<longrightarrow> map_of opts ''phase_flip'' = Some p \<longrightarrow>
            noise_model_of self =
              Inr (Some (add_all_qubit_quantum_error []
                           (Kraus [[[sqrt p, 0], [0, sqrt p]],
                                   [[sqrt (1 - p), 0], [0, - sqrt (1 - p)]]])
                           [''h''])))"
  using assms flip_cptp [OF assms(1,2)]
  by (simp add: noise_model_of_def option_of_def kraus_error_def
      scale_def eye2_def pauli_x_def pauli_z_def)

theorem flip_channel_kraus_pairs_witness:
  "(0 :: real) \<le> 1 / 4 \<and> (1 / 4 :: real) \<le> 1 \<and>
   noise (IQFT 2 (Some ''1'') True (Some ''Bit flip'') (Some [(''bit_flip'', 1 / 4)]) False False) \<and>
   noise_model_of (IQFT 2 (Some ''1'') True (Some ''Bit flip'') (Some [(''bit_flip'', 1 / 4)]) False False) =
     Inr (Some [(Kraus [[[sqrt (1 / 4), 0], [0, sqrt (1 / 4)]],
                        [[0, sqrt (3 / 4)], [sqrt (3 / 4), 0]]], [''h''])]) \<and>
   noise (IQFT 2 (Some ''1'') True (Some ''Phase flip'') (Some [(''phase_flip'', 1 / 4)]) False False) \<and>
   noise_model_of (IQFT 2 (Some ''1'') True (Some ''Phase flip'') (Some [(''phase_flip'', 1 / 4)]) False False) =
     Inr (Some [(Kraus [[[sqrt (1 / 4), 0], [0, sqrt (1 / 4)]],
                        [[sqrt (3 / 4), 0], [0, - sqrt (3 / 4)]]], [''h''])])"
proof -
  let ?a = "IQFT 2 (Some ''1'') True (Some ''Bit flip'') (Some [(''bit_flip'', 1 / 4)]) False False"
  let ?b = "IQFT 2 (Some ''1'') True (Some ''Phase flip'') (Some [(''phase_flip'', 1 / 4)]) False False"
  have p: "(0 :: real) \<le> 1 / 4" "(1 / 4 :: real) \<le> 1"
    by simp_all
  have a: "noise ?a" "noise_options ?a = Some [(''bit_flip'', 1 / 4)]"
      "noise_type ?a = Some ''Bit flip''"
    and b: "noise ?b" "noise_options ?b = Some [(''phase_flip'', 1 / 4)]"
      "noise_type ?b = Some ''Phase flip''"
    by (simp_all add: IQFT_def)
  show ?thesis
    using p a(1) b(1) flip_channel_kraus_pairs [OF p a(1,2)] flip_channel_kraus_pairs [OF p b(1,2)]
    by (simp add: a(3) b(3) add_all_qubit_quantum_error_def)
qed

section \<open>Running the simulators\<close>





section \<open>Where the noise is attached\<close>








section \<open>An unrecognised noise type\<close>



section \<open>A missing noise channel\<close>

text \<open>
  Claim C5, as the code has it. \<open>simulate\<close> makes no check of its own that the noise
  channel is there. With noise requested and the noise type absent, the noise model is
  built empty without an exception and the noisy path is taken with it, whatever the
  parameters are; with one of the five noise types and the parameters absent, \<open>simulate\<close>
  raises \<open>TypeError\<close> before any simulator runs and leaves the object as it was.
\<close>

theorem missing_noise_channel:
  assumes "noise self"
  shows "(noise_type self = None \<longrightarrow>
            noise_model_of self = Inr (Some []) \<and>
            simulate be self =
              (if comparison self then simulate_comparison be self (Some [])
               else simulate_single be self (AerSimulator (Some []))
                      (\<lambda>res. then_do (data_density_matrix res) (\<lambda>m. Inr (DensityMatrix m))))) \<and>
         (noise_type self \<in> Some ` set known_noise_types \<longrightarrow> noise_options self = None \<longrightarrow>
            simulate be self = (self, Some TypeError))"
proof -
  have "noise_model_of self = Inr (Some [])" if "noise_type self = None"
    using assms that by (simp add: noise_model_of_def)
  moreover have "noise_model_of self = Inl TypeError"
    if "noise_type self \<in> Some ` set known_noise_types" and "noise_options self = None"
    using assms that by (auto simp: noise_model_of_def known_noise_types_def option_of_def)
  ultimately show ?thesis
    using assms by (auto simp: simulate_def)
qed

theorem missing_noise_channel_witness:
  "noise (IQFT 1 (Some ''1'') True None None False False) \<and>
   noise_type (IQFT 1 (Some ''1'') True None None False False) = None \<and>
   noise_model_of (IQFT 1 (Some ''1'') True None None False False) = Inr (Some []) \<and>
   noise (IQFT 1 (Some ''1'') True (Some ''Bit flip'') None False False) \<and>
   noise_type (IQFT 1 (Some ''1'') True (Some ''Bit flip'') None False False) \<in> Some ` set known_noise_types \<and>
   noise_options (IQFT 1 (Some ''1'') True (Some ''Bit flip'') None False False) = None \<and>
   simulate sample_backend (IQFT 1 (Some ''1'') True (Some ''Bit flip'') None False False) =
     (IQFT 1 (Some ''1'') True (Some ''Bit flip'') None False False, Some TypeError)"
proof -
  let ?a = "IQFT 1 (Some ''1'') True None None False False"
  let ?b = "IQFT 1 (Some ''1'') True (Some ''Bit flip'') None False False"
  have a: "noise ?a" "noise_type ?a = None"
    and b: "noise ?b" "noise_options ?b = None"
    by (simp_all add: IQFT_def)
  have k: "noise_type ?b \<in> Some ` set known_noise_types"
    by (simp add: IQFT_def known_noise_types_def)
  show ?thesis
    using a b k missing_noise_channel [OF a(1), of sample_backend]
      missing_noise_channel [OF b(1), of sample_backend]
    by simp
qed

text \<open>
  The claim as stated fails on a built one-qubit circuit with noise requested and
  neither noise type nor parameters given: no exception is raised and the run stores
  its density matrix.
\<close>

theorem missing_noise_channel_counterexample:
  "noise (IQFT 1 (Some ''1'') True None None False False) \<and>
   noise_type (IQFT 1 (Some ''1'') True None None False False) = None \<and>
   noise_options (IQFT 1 (Some ''1'') True None None False False) = None \<and>
   simulate sample_backend (fst (build_iqft sample_drawer (IQFT 1 (Some ''1'') True None None False False))) =
     ((IQFT 1 (Some ''1'') True None None False False)
        \<lparr>qc := Some \<lparr>num_qubits = 1,
                      data = [Hgate 0, Pgate (Angle 1 1) 0, Hgate 0, SaveDensityMatrix]\<rparr>,
         target := Some (AerSimulator (Some [])),
         resulting_state := Some (DensityMatrix [[1]]),
         resulting_probabilities := Some [1]\<rparr>, None)"
  by (simp add: simulate_def simulate_single_def noise_model_of_def sample_backend_def
      sample_drawer_def data_density_matrix_def Let_def
      build_iqft_def then_do_def QuantumCircuit_def add_iqft_circuit_def IQFT_def
      py_range_def add_iqft_rotations_def int_of_def py_int_def int_max_str_digits_def strip_def is_space_def
      is_digit_def digit_val_def times_pi_over_def float_max_int_def qc_h_def qc_p_def
      qc_save_density_matrix_def emit_def)

section \<open>Comparison mode\<close>

text \<open>
  Claim C3, at an input where the code fails it. The comparison branch of \<open>simulate\<close>
  asks both results for their counts whatever the measure flag is, where the two other
  branches ask only \<open>if self.measure\<close>; but the builder appends the measurement only when
  the flag is set. On a backend whose results hold counts only for a circuit that
  measures, the one-qubit object made with noise, depolarizing parameters, comparison
  and the measure flag set stores both pairs, and the same object made with the flag
  cleared builds a circuit without a measurement, on which \<open>simulate\<close> raises the error of
  \<open>get_counts\<close> after the first run and stores nothing: \<open>get_comp_counts\<close> and
  \<open>get_comp_fidelity\<close> return \<open>None\<close>.
\<close>

theorem comparison_without_measurement:
  "simulate measuring_backend (fst (build_iqft sample_drawer
      (IQFT 1 (Some ''1'') True (Some ''Depolarizing'') (Some [(''depolarizing'', 1 / 100)]) True True))) =
     ((IQFT 1 (Some ''1'') True (Some ''Depolarizing'') (Some [(''depolarizing'', 1 / 100)]) True True)
        \<lparr>qc := Some \<lparr>num_qubits = 1,
                      data = [Hgate 0, Pgate (Angle 1 1) 0, Hgate 0, SaveDensityMatrix, MeasureAll]\<rparr>,
         comp_counts := Some ([(''0'', 1024)], [(''0'', 1024)]),
         comp_fidelity := Some (Statevector [1], DensityMatrix [[1]])\<rparr>, None) \<and>
   qc (fst (build_iqft sample_drawer
      (IQFT 1 (Some ''1'') True (Some ''Depolarizing'') (Some [(''depolarizing'', 1 / 100)]) False True))) =
     Some \<lparr>num_qubits = 1, data = [Hgate 0, Pgate (Angle 1 1) 0, Hgate 0, SaveDensityMatrix]\<rparr> \<and>
   simulate measuring_backend (fst (build_iqft sample_drawer
      (IQFT 1 (Some ''1'') True (Some ''Depolarizing'') (Some [(''depolarizing'', 1 / 100)]) False True))) =
     ((IQFT 1 (Some ''1'') True (Some ''Depolarizing'') (Some [(''depolarizing'', 1 / 100)]) False True)
        \<lparr>qc := Some \<lparr>num_qubits = 1,
                      data = [Hgate 0, Pgate (Angle 1 1) 0, Hgate 0, SaveDensityMatrix]\<rparr>\<rparr>,
      Some QiskitError) \<and>
   get_comp_counts (fst (simulate measuring_backend (fst (build_iqft sample_drawer
      (IQFT 1 (Some ''1'') True (Some ''Depolarizing'') (Some [(''depolarizing'', 1 / 100)]) False True))))) =
     None \<and>
   get_comp_fidelity (fst (simulate measuring_backend (fst (build_iqft sample_drawer
      (IQFT 1 (Some ''1'') True (Some ''Depolarizing'') (Some [(''depolarizing'', 1 / 100)]) False True))))) =
     None"
proof -
  let ?a = "IQFT 1 (Some ''1'') True (Some ''Depolarizing'') (Some [(''depolarizing'', 1 / 100)]) True True"
  let ?b = "IQFT 1 (Some ''1'') True (Some ''Depolarizing'') (Some [(''depolarizing'', 1 / 100)]) False True"
  let ?c = "\<lparr>num_qubits = 1,
             data = [Hgate 0, Pgate (Angle 1 1) 0, Hgate 0, SaveDensityMatrix, MeasureAll]\<rparr>"
  let ?k = "\<lparr>num_qubits = 1, data = [Hgate 0, Pgate (Angle 1 1) 0, Hgate 0, SaveDensityMatrix]\<rparr>"
  have built: "fst (build_iqft sample_drawer ?a) = ?a\<lparr>qc := Some ?c\<rparr>"
      "fst (build_iqft sample_drawer ?b) = ?b\<lparr>qc := Some ?k\<rparr>"
    by (simp_all add: build_iqft_def then_do_def QuantumCircuit_def add_iqft_circuit_def IQFT_def
        py_range_def add_iqft_rotations_def int_of_def py_int_def int_max_str_digits_def strip_def
        is_space_def is_digit_def digit_val_def times_pi_over_def float_max_int_def qc_h_def
        qc_p_def qc_save_density_matrix_def qc_measure_all_def emit_def)
  show ?thesis
    unfolding built
    by (simp add: IQFT_def simulate_def simulate_comparison_def noise_model_of_def option_of_def
        depolarizing_error_def add_all_qubit_quantum_error_def then_do_def measuring_backend_def
        get_statevector_def get_counts_def data_density_matrix_def get_comp_counts_def
        get_comp_fidelity_def)
qed

lemma simulate_comparison_writes:
  "fst (simulate_comparison be self nmo) =
     self\<lparr>comp_counts := comp_counts (fst (simulate_comparison be self nmo)),
          comp_fidelity := comp_fidelity (fst (simulate_comparison be self nmo))\<rparr>"
  by (simp add: simulate_comparison_def split: sum.splits prod.splits)

lemma simulate_writes:
  assumes "comparison self"
  shows "fst (simulate be self) =
     self\<lparr>comp_counts := comp_counts (fst (simulate be self)),
          comp_fidelity := comp_fidelity (fst (simulate be self))\<rparr>"
  using assms simulate_comparison_writes
  by (simp add: simulate_def split: sum.splits)

lemma simulate_frame:
  assumes "comparison self"
  shows "resulting_state (fst (simulate be self)) = resulting_state self \<and>
   resulting_probabilities (fst (simulate be self)) = resulting_probabilities self \<and>
   resulting_counts (fst (simulate be self)) = resulting_counts self \<and>
   comparison (fst (simulate be self))"
proof -
  let ?t = "fst (simulate be self)"
  have eq: "?t = self\<lparr>comp_counts := comp_counts ?t, comp_fidelity := comp_fidelity ?t\<rparr>"
    by (rule simulate_writes [OF assms])
  have "resulting_state ?t = resulting_state self"
    by (subst eq) simp
  moreover have "resulting_probabilities ?t = resulting_probabilities self"
    by (subst eq) simp
  moreover have "resulting_counts ?t = resulting_counts self"
    by (subst eq) simp
  moreover have "comparison ?t = comparison self"
    by (subst eq) simp
  ultimately show ?thesis
    using assms by simp
qed

lemma build_iqft_frame:
  "resulting_state (fst (build_iqft drawer self)) = resulting_state self \<and>
   resulting_probabilities (fst (build_iqft drawer self)) = resulting_probabilities self \<and>
   resulting_counts (fst (build_iqft drawer self)) = resulting_counts self \<and>
   comparison (fst (build_iqft drawer self)) = comparison self"
  by (simp add: build_iqft_def split: sum.splits)

lemma after_calls_frame:
  assumes "comparison self"
  shows "resulting_state (after_calls drawer be cs self) = resulting_state self \<and>
   resulting_probabilities (after_calls drawer be cs self) = resulting_probabilities self \<and>
   resulting_counts (after_calls drawer be cs self) = resulting_counts self"
  using assms
proof (induction cs arbitrary: self)
  case Nil
  then show ?case by simp
next
  case (Cons c cs)
  show ?case
  proof (cases c)
    case Build
    have "comparison (fst (build_iqft drawer self))"
      using Cons.prems build_iqft_frame by simp
    from Cons.IH [OF this] show ?thesis
      using Build build_iqft_frame by simp
  next
    case Simulate
    have "comparison (fst (simulate be self))"
      using simulate_frame [OF Cons.prems] by simp
    from Cons.IH [OF this] show ?thesis
      using Simulate simulate_frame [OF Cons.prems] by simp
  qed
qed

text \<open>
  Claim C9. A \<open>simulate\<close> in comparison mode changes no field of the object but
  \<open>comp_counts\<close> and \<open>comp_fidelity\<close>, whether it returns or raises. So on an object made
  with comparison enabled, after any sequence of \<open>build_iqft\<close> and \<open>simulate\<close> calls, the
  accessors \<open>get_resulting_state\<close>, \<open>get_resulting_probabilities\<close> and
  \<open>get_resulting_counts\<close> return \<open>None\<close>.
\<close>

theorem comparison_leaves_single_run_fields:
  "fst (simulate be (self\<lparr>comparison := True\<rparr>)) =
     self\<lparr>comparison := True,
          comp_counts := comp_counts (fst (simulate be (self\<lparr>comparison := True\<rparr>))),
          comp_fidelity := comp_fidelity (fst (simulate be (self\<lparr>comparison := True\<rparr>)))\<rparr> \<and>
   get_resulting_state (after_calls drawer be cs (IQFT n st nse nse_type nse_options meas True)) = None \<and>
   get_resulting_probabilities (after_calls drawer be cs (IQFT n st nse nse_type nse_options meas True)) = None \<and>
   get_resulting_counts (after_calls drawer be cs (IQFT n st nse nse_type nse_options meas True)) = None"
proof -
  have "comparison (self\<lparr>comparison := True\<rparr>)"
    by simp
  from simulate_writes [OF this, of be]
  have writes: "fst (simulate be (self\<lparr>comparison := True\<rparr>)) =
     self\<lparr>comparison := True,
          comp_counts := comp_counts (fst (simulate be (self\<lparr>comparison := True\<rparr>))),
          comp_fidelity := comp_fidelity (fst (simulate be (self\<lparr>comparison := True\<rparr>)))\<rparr>"
    by simp
  have "comparison (IQFT n st nse nse_type nse_options meas True)"
    by (simp add: IQFT_def)
  from after_calls_frame [OF this, of drawer be cs] writes show ?thesis
    by (simp add: get_resulting_state_def get_resulting_probabilities_def get_resulting_counts_def
        IQFT_def)
qed

theorem comparison_leaves_single_run_fields_witness:
  "get_resulting_state (after_calls sample_drawer sample_backend [Build, Simulate]
     (IQFT 1 (Some ''1'') True None None True True)) = None \<and>
   get_resulting_probabilities (after_calls sample_drawer sample_backend [Build, Simulate]
     (IQFT 1 (Some ''1'') True None None True True)) = None \<and>
   get_resulting_counts (after_calls sample_drawer sample_backend [Build, Simulate]
     (IQFT 1 (Some ''1'') True None None True True)) = None \<and>
   get_comp_counts (after_calls sample_drawer sample_backend [Build, Simulate]
     (IQFT 1 (Some ''1'') True None None True True)) = Some ([(''0'', 1024)], [(''0'', 1024)]) \<and>
   get_comp_fidelity (after_calls sample_drawer sample_backend [Build, Simulate]
     (IQFT 1 (Some ''1'') True None None True True)) = Some (Statevector [1], DensityMatrix [[1]])"
proof -
  let ?s = "IQFT 1 (Some ''1'') True None None True True"
  have run: "after_calls sample_drawer sample_backend [Build, Simulate] ?s =
      ?s\<lparr>qc := Some \<lparr>num_qubits = 1,
                       data = [Hgate 0, Pgate (Angle 1 1) 0, Hgate 0, SaveDensityMatrix, MeasureAll]\<rparr>,
         comp_counts := Some ([(''0'', 1024)], [(''0'', 1024)]),
         comp_fidelity := Some (Statevector [1], DensityMatrix [[1]])\<rparr>"
    by (simp add: simulate_def simulate_comparison_def noise_model_of_def sample_backend_def
        sample_drawer_def data_density_matrix_def get_statevector_def get_counts_def
        build_iqft_def then_do_def QuantumCircuit_def add_iqft_circuit_def IQFT_def
        py_range_def add_iqft_rotations_def int_of_def py_int_def int_max_str_digits_def strip_def is_space_def
        is_digit_def digit_val_def times_pi_over_def float_max_int_def qc_h_def qc_p_def
        qc_save_density_matrix_def qc_measure_all_def emit_def)
  have stored: "get_comp_counts (after_calls sample_drawer sample_backend [Build, Simulate] ?s) =
        Some ([(''0'', 1024)], [(''0'', 1024)])"
      "get_comp_fidelity (after_calls sample_drawer sample_backend [Build, Simulate] ?s) =
        Some (Statevector [1], DensityMatrix [[1]])"
    unfolding run by (simp_all add: get_comp_counts_def get_comp_fidelity_def)
  show ?thesis
    using stored
      comparison_leaves_single_run_fields [of sample_backend ?s sample_drawer "[Build, Simulate]"
        1 "Some ''1''" True None None True]
    by simp
qed

section \<open>A qubit count out of range\<close>

text \<open>
  Claim C8, as the code has it. For every ASCII text in the qubit-count entry that is an
  integer \<open>n\<close> with \<open>n < 1\<close> or \<open>n > 10\<close>, \<open>build_circuit\<close> raises the \<open>ValueError\<close>
  \<open>Number of qubits must be between 1 and 10\<close> inside its \<open>try\<close> block, catches it and
  shows it in an error box after the line that announces the build. It changes nothing
  else: no simulation object and no circuit is made, and \<open>current_simulation\<close> keeps
  what it held before the call.
\<close>

theorem qubit_count_out_of_range:
  assumes "ascii_text (n_entry w)" and "py_int (n_entry w) = Some n" and "n < 1 \<or> n > 10"
  shows "build_circuit_try ext (add_text_to_bottom_panel w (Lit ''Building quantum circuit...''))
             (n_entry w) =
           (add_text_to_bottom_panel w (Lit ''Building quantum circuit...''),
            Some (ValueError (Msg ''Number of qubits must be between 1 and 10''))) \<and>
         build_circuit ext w =
           w\<lparr>output_text := output_text w @ [Lit ''Building quantum circuit...''],
             errors_shown := errors_shown w @
               [(''Error'',
                 InvalidInput (ValueError (Msg ''Number of qubits must be between 1 and 10'')))]\<rparr> \<and>
         current_simulation (build_circuit ext w) = current_simulation w"
  using assms
  by (auto simp: build_circuit_def build_circuit_try_def add_text_to_bottom_panel_def showerror_def
      int_of_def Let_def)

theorem qubit_count_out_of_range_witness:
  "ascii_text (n_entry ((new_window :: unit window)\<lparr>n_entry := ''0''\<rparr>)) \<and>
   py_int (n_entry ((new_window :: unit window)\<lparr>n_entry := ''0''\<rparr>)) = Some 0 \<and>
   build_circuit sample_externals (new_window\<lparr>n_entry := ''0''\<rparr>) =
     new_window\<lparr>n_entry := ''0'',
       output_text := [Lit ''Simulator ready'', Lit ''Building quantum circuit...''],
       errors_shown :=
         [(''Error'', InvalidInput (ValueError (Msg ''Number of qubits must be between 1 and 10'')))]\<rparr> \<and>
   current_simulation (build_circuit sample_externals (new_window\<lparr>n_entry := ''0''\<rparr>)) = None \<and>
   ascii_text (n_entry ((new_window :: unit window)\<lparr>n_entry := ''11''\<rparr>)) \<and>
   py_int (n_entry ((new_window :: unit window)\<lparr>n_entry := ''11''\<rparr>)) = Some 11 \<and>
   build_circuit sample_externals (new_window\<lparr>n_entry := ''11''\<rparr>) =
     new_window\<lparr>n_entry := ''11'',
       output_text := [Lit ''Simulator ready'', Lit ''Building quantum circuit...''],
       errors_shown :=
         [(''Error'', InvalidInput (ValueError (Msg ''Number of qubits must be between 1 and 10'')))]\<rparr> \<and>
   current_simulation (build_circuit sample_externals (new_window\<lparr>n_entry := ''11''\<rparr>)) = None"
proof -
  let ?w0 = "(new_window :: unit window)\<lparr>n_entry := ''0''\<rparr>"
  let ?w11 = "(new_window :: unit window)\<lparr>n_entry := ''11''\<rparr>"
  have p0: "py_int (n_entry ?w0) = Some 0" and p11: "py_int (n_entry ?w11) = Some 11"
    by (simp_all add: py_int_def int_max_str_digits_def strip_def is_space_def is_digit_def digit_val_def)
  have a0: "ascii_text (n_entry ?w0)" and a11: "ascii_text (n_entry ?w11)"
    by (simp_all add: ascii_text_def)
  have r0: "(0 :: int) < 1 \<or> (0 :: int) > 10" and r11: "(11 :: int) < 1 \<or> (11 :: int) > 10"
    by simp_all
  show ?thesis
    using a0 a11 p0 p11 qubit_count_out_of_range [OF a0 p0 r0, of sample_externals]
      qubit_count_out_of_range [OF a11 p11 r11, of sample_externals]
    by (simp add: new_window_def)
qed

text \<open>
  The claim as stated fails where a circuit was built before: after a build with two
  qubits, a build with the qubit count 0 shows the error and the window still holds the
  two-qubit simulation with its circuit.
\<close>

theorem qubit_count_keeps_circuit_counterexample:
  "current_simulation
     (build_circuit sample_externals
        ((build_circuit sample_externals
            (new_window\<lparr>n_entry := ''2'', algorithm_var := ''IQFT'', iqft_number_entry := Some ''1''\<rparr>))
         \<lparr>n_entry := ''0''\<rparr>)) =
     Some (IQFT_obj ((IQFT 2 (Some ''1'') False None None False False)
       \<lparr>qc := Some \<lparr>num_qubits = 2,
                     data = [Hgate 0, Hgate 1, Pgate (Angle 1 1) 1, Pgate (Angle 1 2) 0,
                             SWAPgate 0 1, Barrier, Hgate 0, CPgate (Angle (- 1) 2) 0 1,
                             Hgate 1]\<rparr>\<rparr>)) \<and>
   errors_shown
     (build_circuit sample_externals
        ((build_circuit sample_externals
            (new_window\<lparr>n_entry := ''2'', algorithm_var := ''IQFT'', iqft_number_entry := Some ''1''\<rparr>))
         \<lparr>n_entry := ''0''\<rparr>)) =
     [(''Error'', InvalidInput (ValueError (Msg ''Number of qubits must be between 1 and 10'')))]"
  by (simp add: build_circuit_def build_circuit_try_def add_text_to_bottom_panel_def showerror_def
      new_window_def sample_externals_def sample_drawer_def built_def display_circuit_def
      build_iqft_def Let_def
      then_do_def QuantumCircuit_def add_iqft_circuit_def IQFT_def py_range_def
      add_iqft_rotations_def int_of_def py_int_def int_max_str_digits_def strip_def is_space_def is_digit_def digit_val_def
      times_pi_over_def float_max_int_def qc_h_def qc_p_def qc_cp_def qc_swap_def qc_barrier_def
      emit_def upt_conv_Cons)

end
